theory Spec2Isabelle
  imports Main "HOL-Library.AList"
begin

section \<open>Python strings\<close>

text \<open>
  A Python \<open>str\<close> is modelled as a \<open>string\<close>, one \<open>char\<close> per character, the \<open>char\<close>
  being the code point: the strings of the model are the Python strings whose code points
  are below 256. Every literal of \<open>main.py\<close> is such a string. The character classes and
  the case mappings below are Python's on these 256 characters.
\<close>

text \<open>The ranges \<open>a-z\<close>, \<open>A-Z\<close> and \<open>0-9\<close>.\<close>

definition is_lower_c :: "char \<Rightarrow> bool" where
  "is_lower_c c = (97 \<le> (of_char c :: nat) \<and> (of_char c :: nat) \<le> 122)"

definition is_upper_c :: "char \<Rightarrow> bool" where
  "is_upper_c c = (65 \<le> (of_char c :: nat) \<and> (of_char c :: nat) \<le> 90)"

definition is_digit_c :: "char \<Rightarrow> bool" where
  "is_digit_c c = (48 \<le> (of_char c :: nat) \<and> (of_char c :: nat) \<le> 57)"

definition is_alpha_c :: "char \<Rightarrow> bool" where
  "is_alpha_c c = (is_lower_c c \<or> is_upper_c c)"

text \<open>The character class \<open>[A-Za-z0-9]\<close> of the regular expression in \<open>format_awrs\<close>.\<close>

definition is_alnum_c :: "char \<Rightarrow> bool" where
  "is_alnum_c c = (is_alpha_c c \<or> is_digit_c c)"

definition is_ascii_c :: "char \<Rightarrow> bool" where
  "is_ascii_c c = ((of_char c :: nat) < 128)"

text \<open>
  \<open>str.isspace\<close> on one character: tab, line feed, vertical tab, form feed, carriage
  return, the four separators 28 to 31, the blank, the next-line control U+0085 and the
  no-break space U+00A0. \<open>str.strip()\<close>, \<open>str.split()\<close> and the regular expression class
  \<open>\s\<close> all use this set.
\<close>

definition is_space_c :: "char \<Rightarrow> bool" where
  "is_space_c c = ((9 \<le> (of_char c :: nat) \<and> (of_char c :: nat) \<le> 13)
                  \<or> (28 \<le> (of_char c :: nat) \<and> (of_char c :: nat) \<le> 32)
                  \<or> (of_char c :: nat) = 133 \<or> (of_char c :: nat) = 160)"

text \<open>
  \<open>str.isalpha\<close> and \<open>str.isdigit\<close> on one character. The letters are \<open>a-z\<close>, \<open>A-Z\<close>, the
  two ordinal indicators U+00AA and U+00BA, the micro sign U+00B5 and the accented letters
  from U+00C0 on without the multiplication sign U+00D7 and the division sign U+00F7. The
  digits are \<open>0-9\<close> and the superscripts U+00B2, U+00B3 and U+00B9.
\<close>

definition isalpha_c :: "char \<Rightarrow> bool" where
  "isalpha_c c =
     (is_alpha_c c
      \<or> (of_char c :: nat) = 170 \<or> (of_char c :: nat) = 181 \<or> (of_char c :: nat) = 186
      \<or> (192 \<le> (of_char c :: nat) \<and> (of_char c :: nat) \<noteq> 215 \<and> (of_char c :: nat) \<noteq> 247))"

definition isdigit_c :: "char \<Rightarrow> bool" where
  "isdigit_c c =
     (is_digit_c c
      \<or> (of_char c :: nat) = 178 \<or> (of_char c :: nat) = 179 \<or> (of_char c :: nat) = 185)"

text \<open>
  The case mappings of one character onto one character: \<open>a-z\<close> and the accented small
  letters U+00E0 to U+00FE (without the division sign) have their capital 32 places
  below, and the other way round for \<open>lower_c\<close>.
\<close>

definition upper_c :: "char \<Rightarrow> char" where
  "upper_c c =
     (if is_lower_c c
         \<or> (224 \<le> (of_char c :: nat) \<and> (of_char c :: nat) \<le> 254 \<and> (of_char c :: nat) \<noteq> 247)
      then char_of ((of_char c :: nat) - 32) else c)"

definition lower_c :: "char \<Rightarrow> char" where
  "lower_c c =
     (if is_upper_c c
         \<or> (192 \<le> (of_char c :: nat) \<and> (of_char c :: nat) \<le> 222 \<and> (of_char c :: nat) \<noteq> 215)
      then char_of ((of_char c :: nat) + 32) else c)"

text \<open>
  \<open>str.upper()\<close> may change the length: the sharp s U+00DF has no capital of its own and
  becomes \<open>SS\<close>. The capitals of the micro sign U+00B5 and of U+00FF are U+039C and U+0178,
  which are no characters of the model: \<open>upper_c\<close> leaves these two as they are, and a string
  with one of them is the one place where \<open>py_upper\<close> is not \<open>str.upper()\<close>. Both capitals
  are outside \<open>[A-Za-z0-9]\<close>, as the two characters are, so the test of \<open>format_awrs\<close> comes
  out as in Python on such a string too; only these two characters of its fallback value
  are not the capitals that Python writes.
\<close>

definition upper_str :: "char \<Rightarrow> string" where
  "upper_str c = (if c = CHR 0xDF then ''SS'' else [upper_c c])"

definition py_upper :: "string \<Rightarrow> string" where
  "py_upper s = concat (map upper_str s)"

text \<open>\<open>str.lower()\<close> maps every character of the model onto one character of the model.\<close>

definition py_lower :: "string \<Rightarrow> string" where
  "py_lower s = map lower_c s"

definition py_lstrip :: "string \<Rightarrow> string" where
  "py_lstrip s = dropWhile is_space_c s"

definition py_rstrip :: "string \<Rightarrow> string" where
  "py_rstrip s = rev (dropWhile is_space_c (rev s))"

definition py_strip :: "string \<Rightarrow> string" where
  "py_strip s = py_rstrip (py_lstrip s)"

text \<open>\<open>str.isalpha\<close> and \<open>str.isdigit\<close>: false on the empty string.\<close>

definition py_isalpha :: "string \<Rightarrow> bool" where
  "py_isalpha s = (s \<noteq> [] \<and> list_all isalpha_c s)"

definition py_isdigit :: "string \<Rightarrow> bool" where
  "py_isdigit s = (s \<noteq> [] \<and> list_all isdigit_c s)"

text \<open>Python's \<open>a or b\<close> on two strings: the empty string is the only false one.\<close>

definition py_or :: "string \<Rightarrow> string \<Rightarrow> string" where
  "py_or a b = (if a \<noteq> [] then a else b)"

text \<open>The slice \<open>s[i:j]\<close> for \<open>0 \<le> i \<le> j\<close>.\<close>

definition slice :: "nat \<Rightarrow> nat \<Rightarrow> string \<Rightarrow> string" where
  "slice i j s = take (j - i) (drop i s)"

section \<open>\<open>format_awrs\<close>\<close>

text \<open>\<open>re.sub(r"[^A-Za-z0-9]", "", s)\<close>: every character outside the class is deleted.\<close>

definition strip_non_alnum :: "string \<Rightarrow> string" where
  "strip_non_alnum s = filter is_alnum_c s"

text \<open>
  \<open>main.py\<close>, lines 11 to 16. \<open>urn or ""\<close> is \<open>urn\<close> itself on a string.
\<close>

definition format_awrs :: "string \<Rightarrow> string" where
  "format_awrs urn =
     (let u = strip_non_alnum (py_upper urn) in
      if length u = 15 \<and> py_isalpha (take 4 u) \<and> py_isdigit (drop 4 u)
      then take 4 u @ '' '' @ slice 4 8 u @ '' '' @ slice 8 12 u @ '' '' @ drop 12 u
      else py_upper (py_strip urn))"


text \<open>
  The canonical spaced form: four letters, a blank, four digits, a blank, four digits, a
  blank, three digits.
\<close>

definition canonical_urn :: "string \<Rightarrow> bool" where
  "canonical_urn x =
     (length x = 18
      \<and> list_all is_alpha_c (take 4 x) \<and> x ! 4 = CHR '' ''
      \<and> list_all is_digit_c (slice 5 9 x) \<and> x ! 9 = CHR '' ''
      \<and> list_all is_digit_c (slice 10 14 x) \<and> x ! 14 = CHR '' ''
      \<and> list_all is_digit_c (drop 15 x))"

section \<open>\<open>normalise_status\<close>\<close>

text \<open>\<open>main.py\<close>, lines 19 to 34, with the tests in the order of the source.\<close>

definition normalise_status :: "string \<Rightarrow> string" where
  "normalise_status raw =
     (let s = py_lower (py_strip raw) in
      if s = ''approved'' then ''Approved''
      else if s \<in> {''not approved'', ''no longer approved'', ''no-longer approved''}
        then ''Not Approved''
      else if s \<in> {''no match'', ''no results found''} then ''No Match''
      else if s \<in> {''deregistered'', ''removed'', ''revoked'', ''application withdrawn''}
        then ''Deregistered''
      else if s = ''not applicable'' then ''Approved''
      else if s = [] \<or> s = '''' then ''Unknown''
      else py_strip raw)"

text \<open>The fixed table of section 4.3 of the specification, as an association list.\<close>

definition status_table :: "(string \<times> string) list" where
  "status_table =
     [(''approved'', ''Approved''),
      (''not applicable'', ''Approved''),
      (''not approved'', ''Not Approved''),
      (''no longer approved'', ''Not Approved''),
      (''no-longer approved'', ''Not Approved''),
      (''no match'', ''No Match''),
      (''no results found'', ''No Match''),
      (''deregistered'', ''Deregistered''),
      (''removed'', ''Deregistered''),
      (''revoked'', ''Deregistered''),
      (''application withdrawn'', ''Deregistered''),
      ('''', ''Unknown'')]"

definition normalise_spec :: "string \<Rightarrow> string" where
  "normalise_spec raw =
     (case map_of status_table (py_lower (py_strip raw)) of
        Some canonical \<Rightarrow> canonical
      | None \<Rightarrow> py_strip raw)"

section \<open>Parsed HTML documents\<close>

text \<open>
  The parser is a library: a document is modelled as it comes out of it, a forest of tags
  and text. Only the strings that \<open>get_text()\<close> collects are kept as \<open>Text\<close> nodes. A tag
  carries its name, its attributes and its children.
\<close>

datatype node = Text string | Tag string "(string \<times> string) list" "node list"

type_synonym soup = "node list"

text \<open>\<open>tag.get_text()\<close>: the strings below the tag, in document order, joined.\<close>

fun get_text :: "node \<Rightarrow> string" where
  "get_text (Text s) = s"
| "get_text (Tag n a cs) = concat (map get_text cs)"

text \<open>\<open>soup.get_text()\<close> on the whole document.\<close>

definition soup_text :: "soup \<Rightarrow> string" where
  "soup_text doc = concat (map get_text doc)"

text \<open>
  Every tag of the forest in document order, each with the siblings that follow it (what
  \<open>find_next_sibling\<close> walks through).
\<close>

fun tags_with_siblings :: "node list \<Rightarrow> (node \<times> node list) list" where
  "tags_with_siblings [] = []"
| "tags_with_siblings (Text s # rest) = tags_with_siblings rest"
| "tags_with_siblings (Tag n a cs # rest) =
     (Tag n a cs, rest) # tags_with_siblings cs @ tags_with_siblings rest"

fun tag_name :: "node \<Rightarrow> string option" where
  "tag_name (Text s) = None"
| "tag_name (Tag n a cs) = Some n"

text \<open>\<open>tag.get(key)\<close>: the attribute, or \<open>None\<close>.\<close>

fun tag_get :: "node \<Rightarrow> string \<Rightarrow> string option" where
  "tag_get (Text s) key = None"
| "tag_get (Tag n a cs) key = map_of a key"

definition is_tag_named :: "string list \<Rightarrow> node \<Rightarrow> bool" where
  "is_tag_named names nd = (case tag_name nd of None \<Rightarrow> False | Some n \<Rightarrow> n \<in> set names)"

text \<open>\<open>soup.find_all(names)\<close>, each hit with its following siblings.\<close>

definition find_all_sib :: "string list \<Rightarrow> soup \<Rightarrow> (node \<times> node list) list" where
  "find_all_sib names doc =
     filter (\<lambda>(t, sibs). is_tag_named names t) (tags_with_siblings doc)"

definition find_all :: "string list \<Rightarrow> soup \<Rightarrow> node list" where
  "find_all names doc = map fst (find_all_sib names doc)"

text \<open>\<open>soup.find(name)\<close>: the first hit of \<open>find_all\<close>, or \<open>None\<close>.\<close>

definition find_first :: "string \<Rightarrow> soup \<Rightarrow> node option" where
  "find_first nm doc = (case find_all [nm] doc of [] \<Rightarrow> None | t # ts \<Rightarrow> Some t)"

definition find_next_sibling :: "string \<Rightarrow> node list \<Rightarrow> node option" where
  "find_next_sibling nm sibs = List.find (is_tag_named [nm]) sibs"

text \<open>
  \<open>s.split()\<close>: the maximal runs of characters that are not white space. The scan keeps
  the run it is in, reversed, and the runs it has closed.
\<close>

definition split_step :: "string \<times> string list \<Rightarrow> char \<Rightarrow> string \<times> string list" where
  "split_step st c =
     (if is_space_c c
      then (if fst st = [] then st else ([], snd st @ [rev (fst st)]))
      else (c # fst st, snd st))"

definition py_split :: "string \<Rightarrow> string list" where
  "py_split s =
     (let st = foldl split_step ([], []) s
      in if fst st = [] then snd st else snd st @ [rev (fst st)])"

fun py_join :: "string \<Rightarrow> string list \<Rightarrow> string" where
  "py_join sep [] = []"
| "py_join sep [w] = w"
| "py_join sep (w # ws) = w @ sep @ py_join sep ws"

text \<open>\<open>s.startswith(p)\<close> and \<open>p in s\<close>.\<close>

definition startswith :: "string \<Rightarrow> string \<Rightarrow> bool" where
  "startswith s p = (take (length p) s = p)"

fun py_in :: "string \<Rightarrow> string \<Rightarrow> bool" where
  "py_in p [] = (p = [])"
| "py_in p (c # s) = (startswith (c # s) p \<or> py_in p s)"

section \<open>The two regular expressions of \<open>find_after_label\<close>\<close>

text \<open>
  \<open>re.search\<close> tries every start position from the left and, at each, the alternatives of
  the pattern in the order of a backtracking matcher: a greedy \<open>\s*\<close> first takes all the
  white space and then gives it back one character at a time, \<open>:?\<close> first takes the colon
  and then does without it. Each combinator below lists the remainders of the text in
  that order, and \<open>first_some\<close> takes the first alternative that leads to a match.
\<close>

definition is_newline_c :: "char \<Rightarrow> bool" where
  "is_newline_c c = (c = CHR 0x0A \<or> c = CHR 0x0D)"

fun first_some :: "('a \<Rightarrow> 'b option) \<Rightarrow> 'a list \<Rightarrow> 'b option" where
  "first_some f [] = None"
| "first_some f (x # xs) = (case f x of Some y \<Rightarrow> Some y | None \<Rightarrow> first_some f xs)"

text \<open>
  \<open>\s*\<close>, greedy: what is left of the text after the longest run of white space, then
  after a run one shorter, down to the text itself.
\<close>

fun greedy_star :: "(char \<Rightarrow> bool) \<Rightarrow> string \<Rightarrow> string list" where
  "greedy_star P [] = [[]]"
| "greedy_star P (c # r) = (if P c then greedy_star P r @ [c # r] else [c # r])"

text \<open>\<open>:?\<close>, greedy.\<close>

definition optional_char :: "char \<Rightarrow> string \<Rightarrow> string list" where
  "optional_char ch r = (case r of [] \<Rightarrow> [r] | c # r' \<Rightarrow> if c = ch then [r', r] else [r])"

text \<open>A literal \<open>\n\<close>.\<close>

definition literal_char :: "char \<Rightarrow> string \<Rightarrow> string list" where
  "literal_char ch r = (case r of [] \<Rightarrow> [] | c # r' \<Rightarrow> if c = ch then [r'] else [])"

text \<open>
  The group \<open>([^\n\r]+)\<close> at the end of both patterns: at least one character, then as
  many as the line has.
\<close>

definition capture_line :: "string \<Rightarrow> string option" where
  "capture_line r =
     (case r of [] \<Rightarrow> None
      | c # r' \<Rightarrow> if is_newline_c c then None
                 else Some (takeWhile (\<lambda>c. \<not> is_newline_c c) r))"

text \<open>What follows the label in \<open>label\s*:?\s*([^\n\r]+)\<close>.\<close>

definition inline_tail :: "string \<Rightarrow> string option" where
  "inline_tail r =
     first_some
       (\<lambda>r1. first_some
                (\<lambda>r2. first_some capture_line (greedy_star is_space_c r2))
                (optional_char CHR '':'' r1))
       (greedy_star is_space_c r)"

text \<open>What follows the label in \<open>label\s*\n\s*([^\n\r]+)\<close>.\<close>

definition nextline_tail :: "string \<Rightarrow> string option" where
  "nextline_tail r =
     first_some
       (\<lambda>r1. first_some
                (\<lambda>r2. first_some capture_line (greedy_star is_space_c r2))
                (literal_char CHR 0x0A r1))
       (greedy_star is_space_c r)"

text \<open>
  \<open>re.escape(label)\<close> under \<open>re.IGNORECASE\<close>: the label, letter for letter, whatever the
  case. The result is the text after it.
\<close>

definition literal_ci :: "string \<Rightarrow> string \<Rightarrow> string option" where
  "literal_ci label text =
     (if length label \<le> length text \<and> py_lower (take (length label) text) = py_lower label
      then Some (drop (length label) text) else None)"

definition match_here :: "string \<Rightarrow> (string \<Rightarrow> string option) \<Rightarrow> string \<Rightarrow> string option" where
  "match_here label tail text =
     (case literal_ci label text of None \<Rightarrow> None | Some r \<Rightarrow> tail r)"

text \<open>\<open>re.search(pattern, text).group(1)\<close>, or \<open>None\<close> when nothing matches.\<close>

fun re_search :: "string \<Rightarrow> (string \<Rightarrow> string option) \<Rightarrow> string \<Rightarrow> string option" where
  "re_search label tail [] = match_here label tail []"
| "re_search label tail (c # text) =
     (case match_here label tail (c # text) of
        Some g \<Rightarrow> Some g
      | None \<Rightarrow> re_search label tail text)"

section \<open>\<open>find_after_label\<close>\<close>

text \<open>
  \<open>main.py\<close>, lines 41 to 45: the loop over the \<open>dt\<close> tags. A tag is always true in
  Python, so \<open>if dd\<close> asks whether a \<open>dd\<close> sibling exists; when it does the loop returns its
  text, whatever it is, and when it does not the loop goes on to the next \<open>dt\<close>.
\<close>

fun dl_match :: "string \<Rightarrow> (node \<times> node list) list \<Rightarrow> string option" where
  "dl_match label [] = None"
| "dl_match label ((dt, sibs) # more) =
     (if py_lower (py_strip (get_text dt)) = py_lower label
      then (case find_next_sibling ''dd'' sibs of
              Some dd \<Rightarrow> Some (py_strip (py_join '' '' (py_split (get_text dd))))
            | None \<Rightarrow> dl_match label more)
      else dl_match label more)"

text \<open>Lines 48 to 52 and lines 55 to 58.\<close>

definition inline_match :: "string \<Rightarrow> string \<Rightarrow> string option" where
  "inline_match label text = map_option py_strip (re_search label inline_tail text)"

definition nextline_match :: "string \<Rightarrow> string \<Rightarrow> string option" where
  "nextline_match label text = map_option py_strip (re_search label nextline_tail text)"

text \<open>
  \<open>main.py\<close>, lines 37 to 62. Nothing in the body raises on a string and a document, so
  the \<open>except\<close> branch has no counterpart here.
\<close>

definition find_after_label :: "string \<Rightarrow> soup \<Rightarrow> string" where
  "find_after_label label doc =
     (case dl_match label (find_all_sib [''dt''] doc) of
        Some v \<Rightarrow> v
      | None \<Rightarrow>
         (let text = soup_text doc in
          case inline_match label text of
            Some v \<Rightarrow> v
          | None \<Rightarrow>
             (case nextline_match label text of
                Some v \<Rightarrow> v
              | None \<Rightarrow> [])))"

text \<open>
  The extractor as the specification words it: the three strategies in order, and the
  first result that is not empty.
\<close>

definition extract_spec :: "string \<Rightarrow> soup \<Rightarrow> string" where
  "extract_spec label doc =
     (case List.find (\<lambda>v. v \<noteq> [])
             (map (\<lambda>r. case r of None \<Rightarrow> [] | Some v \<Rightarrow> v)
                [dl_match label (find_all_sib [''dt''] doc),
                 inline_match label (soup_text doc),
                 nextline_match label (soup_text doc)]) of
        Some v \<Rightarrow> v
      | None \<Rightarrow> [])"

text \<open>The strategies in order, and the first one that matches.\<close>

definition first_match :: "string \<Rightarrow> soup \<Rightarrow> string option" where
  "first_match label doc =
     first_some id
       [dl_match label (find_all_sib [''dt''] doc),
        inline_match label (soup_text doc),
        nextline_match label (soup_text doc)]"

section \<open>JSON values and result dictionaries\<close>

text \<open>
  The request body and the values of a result dictionary are JSON values. A dictionary
  literal is an association list in the order of the source; \<open>map_of\<close> reads a key, and a
  key that the literal does not have reads \<open>None\<close>.
\<close>

datatype json =
    JNull
  | JBool bool
  | JNum int
  | JStr string
  | JArr "json list"
  | JObj "(string \<times> json) list"

type_synonym result = "(string \<times> json) list"

text \<open>Truth of a value, as \<open>request.json or {}\<close> tests it.\<close>

fun py_truthy :: "json \<Rightarrow> bool" where
  "py_truthy JNull = False"
| "py_truthy (JBool b) = b"
| "py_truthy (JNum n) = (n \<noteq> 0)"
| "py_truthy (JStr s) = (s \<noteq> [])"
| "py_truthy (JArr xs) = (xs \<noteq> [])"
| "py_truthy (JObj kvs) = (kvs \<noteq> [])"

fun py_type_name :: "json \<Rightarrow> string" where
  "py_type_name JNull = ''NoneType''"
| "py_type_name (JBool b) = ''bool''"
| "py_type_name (JNum n) = ''int''"
| "py_type_name (JStr s) = ''str''"
| "py_type_name (JArr xs) = ''list''"
| "py_type_name (JObj kvs) = ''dict''"

text \<open>The text of the \<open>AttributeError\<close> that a missing method raises.\<close>

definition attribute_error :: "json \<Rightarrow> string \<Rightarrow> string" where
  "attribute_error v attr =
     [CHR 0x27] @ py_type_name v @ [CHR 0x27] @ '' object has no attribute ''
     @ [CHR 0x27] @ attr @ [CHR 0x27]"

text \<open>\<open>data.get(key, '')\<close>: only a dictionary has the method.\<close>

fun json_get :: "json \<Rightarrow> string \<Rightarrow> string + json" where
  "json_get (JObj kvs) key = Inr (case map_of kvs key of None \<Rightarrow> JStr [] | Some v \<Rightarrow> v)"
| "json_get v key = Inl (attribute_error v ''get'')"

text \<open>\<open>value.strip()\<close>: only a string has the method.\<close>

fun json_strip :: "json \<Rightarrow> string + string" where
  "json_strip (JStr s) = Inr (py_strip s)"
| "json_strip v = Inl (attribute_error v ''strip'')"

text \<open>
  \<open>str(n)\<close> for an integer, as the two f-strings with a status code print it: the decimal
  digits, the last one last. The first argument of \<open>str_digits\<close> bounds the number of
  digits; the number itself is bound enough.
\<close>

fun str_digits :: "nat \<Rightarrow> nat \<Rightarrow> string" where
  "str_digits 0 n = [char_of (48 + n mod 10)]"
| "str_digits (Suc k) n =
     (if n < 10 then [char_of (48 + n)]
      else str_digits k (n div 10) @ [char_of (48 + n mod 10)])"

definition str_nat :: "nat \<Rightarrow> string" where
  "str_nat n = str_digits n n"

definition str_int :: "int \<Rightarrow> string" where
  "str_int i = (if i < 0 then CHR ''-'' # str_nat (nat (- i)) else str_nat (nat i))"

section \<open>The registry, seen from the lookup\<close>

text \<open>
  A response carries its status code and its body, already parsed. The server answers a
  request, knowing the requests the session made before; \<open>Inl\<close> is the text of the
  exception that \<open>requests\<close> raises instead of answering. The selector engine behind
  \<open>soup.select\<close> is a library and comes as a parameter, and so does the reading of the
  clock, already formatted.
\<close>

record response =
  status_code :: int
  content :: soup

datatype request = Get string | Post string "(string option \<times> string) list"

record env =
  server :: "request list \<Rightarrow> request \<Rightarrow> string + response"
  css_select :: "string \<Rightarrow> soup \<Rightarrow> node list"
  timestamp :: string

definition HMRC_URL :: string where
  "HMRC_URL = ''https://www.tax.service.gov.uk/check-the-awrs-register''"

definition origin :: string where
  "origin = ''https://www.tax.service.gov.uk''"

text \<open>The dictionary that the five failing returns of \<open>lookup_single_awrs\<close> build.\<close>

definition error_result :: "env \<Rightarrow> string \<Rightarrow> string \<Rightarrow> json \<Rightarrow> result" where
  "error_result e msg awrs_number supplier_name =
     [(''success'', JBool False),
      (''status'', JStr ''Error''),
      (''error'', JStr msg),
      (''business_name'', JStr []),
      (''address'', JStr []),
      (''deregistration_date'', JStr []),
      (''effective_date'', JStr []),
      (''urn'', JStr []),
      (''awrs_number'', JStr awrs_number),
      (''supplier_name'', supplier_name),
      (''search_timestamp'', JStr (timestamp e))]"

text \<open>The \<open>except\<close> branch of lines 275 to 292.\<close>

definition exception_result :: "env \<Rightarrow> string \<Rightarrow> string \<Rightarrow> json \<Rightarrow> result" where
  "exception_result e exn awrs_number supplier_name =
     error_result e (''Error during AWRS lookup: '' @ exn) awrs_number supplier_name"

section \<open>\<open>lookup_single_awrs\<close>\<close>

text \<open>Lines 215 to 217: the first of the three labels with a value.\<close>

definition extract_status :: "soup \<Rightarrow> string" where
  "extract_status result_soup =
     py_or (find_after_label ''Status'' result_soup)
       (py_or (find_after_label ''Application status'' result_soup)
              (find_after_label ''Registration status'' result_soup))"

text \<open>
  The status after lines 242 and 243, where a status that was found has gone through
  \<open>normalise_status\<close>: the status that the special case of line 249 looks at.
\<close>

definition normalised_status :: "soup \<Rightarrow> string" where
  "normalised_status result_soup =
     (let status = extract_status result_soup in
      if status \<noteq> [] then normalise_status status else status)"

text \<open>The test of lines 246 and 247 on the deregistration date.\<close>

definition is_not_applicable :: "string \<Rightarrow> bool" where
  "is_not_applicable deregistration_date =
     (deregistration_date \<noteq> []
      \<and> py_lower (py_strip deregistration_date) = ''not applicable'')"

text \<open>
  Lines 210 to 273: the fields of the results page, the status normalised, the special
  case of the deregistration date, and the dictionary of a successful lookup.
\<close>

definition parse_results :: "env \<Rightarrow> soup \<Rightarrow> string \<Rightarrow> string \<Rightarrow> json \<Rightarrow> result" where
  "parse_results e result_soup formatted_urn awrs_number supplier_name =
     (let business_name = find_after_label ''Business name'' result_soup;
          status = extract_status result_soup;
          address = py_or (find_after_label ''Principal place of business'' result_soup)
                      (py_or (find_after_label ''Business address'' result_soup)
                             (find_after_label ''Address'' result_soup));
          deregistration_date = find_after_label ''Date of deregistration'' result_soup;
          effective_date =
            py_or (find_after_label ''Effective date of registration'' result_soup)
                  (find_after_label ''Registration date'' result_soup);
          urn = py_or (find_after_label ''URN'' result_soup)
                      (find_after_label ''AWRS URN'' result_soup);
          status = (if status \<noteq> [] then normalise_status status else status);
          not_applicable = is_not_applicable deregistration_date;
          status = (if not_applicable \<and> (status = [] \<or> status = ''Unknown'')
                    then ''Approved'' else status);
          deregistration_date = (if not_applicable then [] else deregistration_date)
      in [(''success'', JBool True),
          (''status'', JStr (py_or status ''Unknown'')),
          (''business_name'', JStr (py_or business_name ''Not found'')),
          (''address'', JStr (py_or address [])),
          (''deregistration_date'', JStr (py_or deregistration_date [])),
          (''effective_date'', JStr (py_or effective_date [])),
          (''urn'', JStr (py_or urn formatted_urn)),
          (''awrs_number'', JStr awrs_number),
          (''supplier_name'', supplier_name),
          (''search_timestamp'', JStr (timestamp e))])"

text \<open>
  Lines 111 to 115: the first anchor or form whose text has the phrase, and its \<open>href\<close>
  or, when that is missing or empty, its \<open>action\<close>.
\<close>

definition find_check_urn_url :: "soup \<Rightarrow> string option" where
  "find_check_urn_url doc =
     (case List.find (\<lambda>link. get_text link \<noteq> []
                              \<and> py_in ''check a urn'' (py_lower (get_text link)))
                     (find_all [''a'', ''form''] doc) of
        None \<Rightarrow> None
      | Some link \<Rightarrow>
          (case tag_get link ''href'' of
             None \<Rightarrow> tag_get link ''action''
           | Some h \<Rightarrow> if h \<noteq> [] then Some h else tag_get link ''action''))"

text \<open>Lines 142 to 149: the hidden fields, a later one replacing an earlier of its name.\<close>

definition hidden_fields :: "soup \<Rightarrow> (string option \<times> string) list" where
  "hidden_fields doc =
     foldl (\<lambda>form_data hidden_input.
              case tag_get hidden_input ''name'' of
                None \<Rightarrow> form_data
              | Some name \<Rightarrow>
                  if name \<noteq> []
                  then AList.update (Some name)
                         (case tag_get hidden_input ''value'' of None \<Rightarrow> [] | Some v \<Rightarrow> v)
                         form_data
                  else form_data)
           []
           (filter (\<lambda>t. tag_get t ''type'' = Some ''hidden'') (find_all [''input''] doc))"

text \<open>Lines 152 to 160: the first selector with a hit gives the text input.\<close>

definition find_text_input :: "env \<Rightarrow> soup \<Rightarrow> node option" where
  \<open>find_text_input e doc =
     first_some (\<lambda>selector. case css_select e selector doc of
                               [] \<Rightarrow> None | t # ts \<Rightarrow> Some t)
       [''input[name="value"]'', ''input[name="query"]'', ''input[type="text"]'']\<close>

text \<open>
  Lines 183 to 273: the submission. \<open>trace\<close> holds the requests made so far; the result
  comes with the requests made in all.
\<close>

definition submit_search ::
  "env \<Rightarrow> request list \<Rightarrow> node \<Rightarrow> (string option \<times> string) list \<Rightarrow> string
     \<Rightarrow> string \<Rightarrow> json \<Rightarrow> result \<times> request list" where
  "submit_search e trace form form_data formatted_urn awrs_number supplier_name =
     (let action_url = (case tag_get form ''action'' of None \<Rightarrow> [] | Some a \<Rightarrow> a);
          action_url = (if \<not> startswith action_url ''http'' then origin @ action_url
                        else action_url);
          req = Post action_url form_data
      in case server e trace req of
           Inl exn \<Rightarrow> (exception_result e exn awrs_number supplier_name, trace @ [req])
         | Inr search_response \<Rightarrow>
             if status_code search_response \<noteq> 200
             then (error_result e
                     (''Search failed with status: '' @ str_int (status_code search_response))
                     awrs_number supplier_name,
                   trace @ [req])
             else (parse_results e (content search_response) formatted_urn
                     awrs_number supplier_name,
                   trace @ [req]))"

text \<open>Lines 124 to 181: the form, its hidden fields, the text input, the payload.\<close>

definition fill_form ::
  "env \<Rightarrow> request list \<Rightarrow> soup \<Rightarrow> string \<Rightarrow> json \<Rightarrow> result \<times> request list" where
  "fill_form e trace doc awrs_number supplier_name =
     (case find_first ''form'' doc of
        None \<Rightarrow>
          (error_result e ''Could not find search form on HMRC website''
             awrs_number supplier_name, trace)
      | Some form \<Rightarrow>
          (let form_data = hidden_fields doc in
           case find_text_input e doc of
             None \<Rightarrow>
               (error_result e ''Could not find text input field''
                  awrs_number supplier_name, trace)
           | Some text_input \<Rightarrow>
               (let formatted_urn = format_awrs awrs_number;
                    form_data = AList.update (tag_get text_input ''name'') formatted_urn
                                  form_data
                in submit_search e trace form form_data formatted_urn
                     awrs_number supplier_name)))"

text \<open>
  Lines 110 to 122: the optional second page. Its status code is not looked at.
\<close>

definition follow_check_urn ::
  "env \<Rightarrow> request list \<Rightarrow> soup \<Rightarrow> string \<Rightarrow> json \<Rightarrow> result \<times> request list" where
  "follow_check_urn e trace doc awrs_number supplier_name =
     (case find_check_urn_url doc of
        None \<Rightarrow> fill_form e trace doc awrs_number supplier_name
      | Some url \<Rightarrow>
          if url \<noteq> [] \<and> \<not> startswith url ''http''
          then (let req = Get (origin @ url) in
                case server e trace req of
                  Inl exn \<Rightarrow>
                    (exception_result e exn awrs_number supplier_name, trace @ [req])
                | Inr response \<Rightarrow>
                    fill_form e (trace @ [req]) (content response)
                      awrs_number supplier_name)
          else fill_form e trace doc awrs_number supplier_name)"

text \<open>
  \<open>main.py\<close>, lines 65 to 292. The exceptions that the \<open>except\<close> branch catches are the
  ones the two \<open>session.get\<close> and the \<open>session.post\<close> raise.
\<close>

definition lookup_single_awrs :: "env \<Rightarrow> string \<Rightarrow> json \<Rightarrow> result \<times> request list" where
  "lookup_single_awrs e awrs_number supplier_name =
     (let req = Get HMRC_URL in
      case server e [] req of
        Inl exn \<Rightarrow> (exception_result e exn awrs_number supplier_name, [req])
      | Inr response \<Rightarrow>
          if status_code response \<noteq> 200
          then (error_result e
                  (''Failed to access HMRC website: '' @ str_int (status_code response))
                  awrs_number supplier_name,
                [req])
          else follow_check_urn e [req] (content response) awrs_number supplier_name)"

section \<open>\<open>webhook_handler\<close>\<close>

text \<open>The dictionary that the two failing returns of the handler build, lines 306 to 325
  and 335 to 354.\<close>

definition webhook_error :: "env \<Rightarrow> string \<Rightarrow> result" where
  "webhook_error e msg =
     [(''success'', JBool False),
      (''status'', JStr ''Error''),
      (''error'', JStr msg),
      (''business_name'', JStr []),
      (''address'', JStr []),
      (''deregistration_date'', JStr []),
      (''effective_date'', JStr []),
      (''urn'', JStr []),
      (''search_timestamp'', JStr (timestamp e))]"

text \<open>
  \<open>main.py\<close>, lines 296 to 354. \<open>request_json\<close> is what \<open>request.json\<close> gives: the parsed
  body, or the text of the exception it raises. Every \<open>Inl\<close> on the way is an exception
  on its way to the \<open>except\<close> branch.
\<close>

definition webhook_handler :: "env \<Rightarrow> string + json \<Rightarrow> result \<times> request list" where
  "webhook_handler e request_json =
     (case request_json of
        Inl exn \<Rightarrow> (webhook_error e exn, [])
      | Inr body \<Rightarrow>
          (let data = (if py_truthy body then body else JObj []) in
           case json_get data ''awrs_number'' of
             Inl exn \<Rightarrow> (webhook_error e exn, [])
           | Inr raw_number \<Rightarrow>
               (case json_strip raw_number of
                  Inl exn \<Rightarrow> (webhook_error e exn, [])
                | Inr awrs_number \<Rightarrow>
                    (case json_get data ''supplier_name'' of
                       Inl exn \<Rightarrow> (webhook_error e exn, [])
                     | Inr supplier_name \<Rightarrow>
                         if awrs_number = []
                         then (webhook_error e ''No AWRS number provided'', [])
                         else lookup_single_awrs e awrs_number supplier_name))))"

section \<open>Properties as predicates\<close>

text \<open>A failed result as the data model describes it: status Error, no content.\<close>

definition blank_error :: "result \<Rightarrow> bool" where
  "blank_error r =
     (map_of r ''status'' = Some (JStr ''Error'')
      \<and> map_of r ''business_name'' = Some (JStr [])
      \<and> map_of r ''address'' = Some (JStr [])
      \<and> map_of r ''deregistration_date'' = Some (JStr [])
      \<and> map_of r ''effective_date'' = Some (JStr [])
      \<and> map_of r ''urn'' = Some (JStr []))"

text \<open>The success codes of HTTP, 200 to 299.\<close>

definition is_2xx :: "int \<Rightarrow> bool" where
  "is_2xx code = (200 \<le> code \<and> code < 300)"

text \<open>
  What lines 192 to 273 make of the answer to the request \<open>req\<close>, sent after the requests
  \<open>trace\<close>: the result \<open>r\<close> of a lookup that got as far as submitting the form.
\<close>

definition search_outcome ::
  "env \<Rightarrow> string \<Rightarrow> json \<Rightarrow> request list \<Rightarrow> request \<Rightarrow> result \<Rightarrow> bool" where
  "search_outcome e awrs_number supplier_name trace req r =
     (case server e trace req of
        Inl exn \<Rightarrow> r = exception_result e exn awrs_number supplier_name
      | Inr search_response \<Rightarrow>
          r = (if status_code search_response \<noteq> 200
               then error_result e
                      (''Search failed with status: '' @ str_int (status_code search_response))
                      awrs_number supplier_name
               else parse_results e (content search_response) (format_awrs awrs_number)
                      awrs_number supplier_name))"

section \<open>Sample pages and registries\<close>

definition landing_page :: soup where
  "landing_page =
     [Tag ''h1'' [] [Text ''Check the AWRS register''],
      Tag ''form'' [(''action'', ''/check-the-awrs-register/search'')]
        [Tag ''input'' [(''type'', ''hidden''), (''name'', ''csrfToken''), (''value'', ''t0k'')] [],
         Tag ''input'' [(''type'', ''text''), (''name'', ''value'')] []]]"

text \<open>
  A results page with a deregistration date that does not apply, a no-break space after
  it, and no status.
\<close>

definition results_not_applicable :: soup where
  "results_not_applicable =
     [Tag ''dl'' []
        [Tag ''dt'' [] [Text ''Date of deregistration''],
         Tag ''dd'' [] [Text (''Not Applicable'' @ [CHR 0xA0])]]]"

text \<open>A results page with nothing on it that the lookup knows.\<close>

definition results_bare :: soup where
  "results_bare = [Tag ''p'' [] [Text ''Nothing to show'']]"

text \<open>A page whose definition list has the term and an empty definition.\<close>

definition page_empty_definition :: soup where
  "page_empty_definition =
     [Tag ''dl'' [] [Tag ''dt'' [] [Text ''Status''], Tag ''dd'' [] []],
      Tag ''p'' [] [Text ''Status: Approved'']]"

text \<open>A selector engine for the sample registries: the input tags with the attribute.\<close>

definition sample_select :: "string \<Rightarrow> soup \<Rightarrow> node list" where
  \<open>sample_select selector doc =
     (if selector = ''input[name="value"]''
      then filter (\<lambda>t. tag_get t ''name'' = Some ''value'') (find_all [''input''] doc)
      else if selector = ''input[name="query"]''
      then filter (\<lambda>t. tag_get t ''name'' = Some ''query'') (find_all [''input''] doc)
      else if selector = ''input[type="text"]''
      then filter (\<lambda>t. tag_get t ''type'' = Some ''text'') (find_all [''input''] doc)
      else [])\<close>

text \<open>
  A registry that answers every \<open>GET\<close> with the landing page under the status code
  \<open>landing\<close>, and every \<open>POST\<close> with the page \<open>results\<close> under the status code \<open>search\<close>.
\<close>

definition sample_env :: "int \<Rightarrow> int \<Rightarrow> soup \<Rightarrow> env" where
  "sample_env landing search results =
     \<lparr>server = (\<lambda>trace req. case req of
                   Get url \<Rightarrow> Inr \<lparr>status_code = landing, content = landing_page\<rparr>
                 | Post url form_data \<Rightarrow> Inr \<lparr>status_code = search, content = results\<rparr>),
      css_select = sample_select,
      timestamp = ''03 November 2026 09:15AM''\<rparr>"

section \<open>Facts about characters and strings\<close>


lemma is_alpha_upper: "is_alpha_c (upper_c c) = is_alpha_c c"
  by (auto simp: is_alpha_c_def is_lower_c_def is_upper_c_def upper_c_def)

lemma upper_upper: "upper_c (upper_c c) = upper_c c"
  by (auto simp: is_lower_c_def upper_c_def)

lemma digit_upper_id: "is_digit_c c \<Longrightarrow> upper_c c = c"
  by (auto simp: is_digit_c_def is_lower_c_def upper_c_def)

lemma alnum_is_ascii: "is_alnum_c c \<Longrightarrow> is_ascii_c c"
  by (auto simp: is_alnum_c_def is_alpha_c_def is_digit_c_def is_lower_c_def is_upper_c_def
      is_ascii_c_def)

lemma alnum_isalpha: "is_alnum_c c \<Longrightarrow> isalpha_c c = is_alpha_c c"
  by (auto simp: isalpha_c_def is_alnum_c_def is_alpha_c_def is_digit_c_def is_lower_c_def
      is_upper_c_def)

lemma alnum_isdigit: "is_alnum_c c \<Longrightarrow> isdigit_c c = is_digit_c c"
  by (auto simp: isdigit_c_def is_alnum_c_def is_alpha_c_def is_digit_c_def is_lower_c_def
      is_upper_c_def)

lemma sharp_s_not_ascii: "\<not> is_ascii_c CHR 0xDF"
  by code_simp

lemma upper_str_ascii: "is_ascii_c c \<Longrightarrow> upper_str c = [upper_c c]"
  using sharp_s_not_ascii by (auto simp: upper_str_def)

lemma upper_blank: "upper_str CHR '' '' = '' ''"
  by code_simp

lemma blank_not_alnum: "\<not> is_alnum_c CHR '' ''"
  by code_simp

lemma py_upper_append: "py_upper (a @ b) = py_upper a @ py_upper b"
  by (simp add: py_upper_def)

lemma py_upper_Cons: "py_upper (c # s) = upper_str c @ py_upper s"
  by (simp add: py_upper_def)

lemma py_upper_ascii: "list_all is_ascii_c s \<Longrightarrow> py_upper s = map upper_c s"
  by (induction s) (auto simp: py_upper_def upper_str_ascii)

lemma list_all_alnum_ascii: "list_all is_alnum_c s \<Longrightarrow> list_all is_ascii_c s"
  by (induction s) (auto simp: alnum_is_ascii)

lemma list_all_alpha_alnum: "list_all is_alpha_c s \<Longrightarrow> list_all is_alnum_c s"
  by (induction s) (auto simp: is_alnum_c_def)

lemma list_all_digit_alnum: "list_all is_digit_c s \<Longrightarrow> list_all is_alnum_c s"
  by (induction s) (auto simp: is_alnum_c_def)

lemma py_upper_alnum: "list_all is_alnum_c s \<Longrightarrow> py_upper s = map upper_c s"
  by (simp add: py_upper_ascii list_all_alnum_ascii)

lemma py_upper_digits: "list_all is_digit_c s \<Longrightarrow> py_upper s = s"
proof -
  assume d: "list_all is_digit_c s"
  have "map upper_c s = s"
    using d by (induction s) (auto simp: digit_upper_id)
  thus ?thesis
    by (simp add: py_upper_alnum [OF list_all_digit_alnum [OF d]])
qed

lemma py_upper_alpha: "list_all is_alpha_c s \<Longrightarrow> py_upper s = map upper_c s"
  by (simp add: py_upper_alnum list_all_alpha_alnum)

lemma py_upper_alpha_idem: "list_all is_alpha_c s \<Longrightarrow> py_upper (py_upper s) = py_upper s"
  by (simp add: py_upper_alpha list_all_iff is_alpha_upper upper_upper)

lemma filter_alnum_alpha: "list_all is_alpha_c s \<Longrightarrow> filter is_alnum_c s = s"
  by (induction s) (auto simp: is_alnum_c_def)

lemma filter_alnum_digit: "list_all is_digit_c s \<Longrightarrow> filter is_alnum_c s = s"
  by (induction s) (auto simp: is_alnum_c_def)

lemma list_all_alpha_upper: "list_all is_alpha_c s \<Longrightarrow> list_all is_alpha_c (py_upper s)"
  by (simp add: py_upper_alpha list_all_iff is_alpha_upper)


lemma list_all_isalpha: "list_all is_alnum_c s \<Longrightarrow> list_all isalpha_c s = list_all is_alpha_c s"
  by (induction s) (auto simp: alnum_isalpha)

lemma list_all_isdigit: "list_all is_alnum_c s \<Longrightarrow> list_all isdigit_c s = list_all is_digit_c s"
  by (induction s) (auto simp: alnum_isdigit)

lemma list_all_take: "list_all P s \<Longrightarrow> list_all P (take n s)"
  by (auto simp: list_all_iff dest: in_set_takeD)

lemma list_all_drop: "list_all P s \<Longrightarrow> list_all P (drop n s)"
  by (auto simp: list_all_iff dest: in_set_dropD)


text \<open>\<open>str_nat\<close> is the decimal rendering: the bound never runs out.\<close>

lemma str_digits_enough:
  "n \<le> k \<Longrightarrow> n \<le> k' \<Longrightarrow> str_digits k n = str_digits k' n"
proof (induction k arbitrary: n k')
  case 0
  then show ?case by (cases k') auto
next
  case (Suc k)
  show ?case
  proof (cases "n < 10")
    case True
    then show ?thesis using Suc.prems by (cases k') auto
  next
    case False
    with Suc.prems obtain j where k': "k' = Suc j" by (cases k') auto
    have "n div 10 \<le> k" and "n div 10 \<le> j"
      using False Suc.prems k' by auto
    from Suc.IH [OF this] False k' show ?thesis by simp
  qed
qed

lemma str_nat_unfold:
  "str_nat n = (if n < 10 then [char_of (48 + n)]
                else str_nat (n div 10) @ [char_of (48 + n mod 10)])"
proof (cases n)
  case 0
  then show ?thesis by (simp add: str_nat_def)
next
  case (Suc m)
  have "n \<ge> 10 \<Longrightarrow> str_digits m (n div 10) = str_digits (n div 10) (n div 10)"
    using Suc by (intro str_digits_enough) auto
  with Suc show ?thesis by (auto simp: str_nat_def)
qed

section \<open>The formatter\<close>


lemma format_awrs_groups:
  assumes la: "length a = 4" and lb: "length b = 4" and lc: "length c = 4" and ld: "length d = 3"
    and aa: "list_all is_alpha_c a"
    and db: "list_all is_digit_c b" and dc: "list_all is_digit_c c" and dd: "list_all is_digit_c d"
  shows "format_awrs (a @ CHR '' '' # b @ CHR '' '' # c @ CHR '' '' # d)
         = py_upper a @ CHR '' '' # b @ CHR '' '' # c @ CHR '' '' # d"
proof -
  let ?x = "a @ CHR '' '' # b @ CHR '' '' # c @ CHR '' '' # d"
  let ?u = "py_upper a @ b @ c @ d"
  have up: "py_upper ?x = py_upper a @ CHR '' '' # b @ CHR '' '' # c @ CHR '' '' # d"
    using db dc dd by (simp add: py_upper_append py_upper_Cons py_upper_digits upper_blank)
  have ua: "list_all is_alpha_c (py_upper a)"
    by (rule list_all_alpha_upper [OF aa])
  have u: "strip_non_alnum (py_upper ?x) = ?u"
    unfolding up strip_non_alnum_def
    using ua db dc dd
    by (simp add: blank_not_alnum filter_alnum_alpha filter_alnum_digit)
  have len: "length (py_upper a) = 4" using la by (simp add: py_upper_alpha [OF aa])
  have a_ne: "py_upper a \<noteq> []" using len by auto
  have al: "list_all is_alnum_c ?u"
    using ua db dc dd by (simp add: list_all_alpha_alnum list_all_digit_alnum)
  have "list_all is_alpha_c (take 4 ?u)" using len ua by simp
  hence "list_all isalpha_c (take 4 ?u)"
    using list_all_isalpha [OF list_all_take [OF al]] by simp
  hence alpha: "py_isalpha (take 4 ?u)"
    using len a_ne by (simp add: py_isalpha_def)
  have "list_all is_digit_c (drop 4 ?u)" using len db dc dd by simp
  hence "list_all isdigit_c (drop 4 ?u)"
    using list_all_isdigit [OF list_all_drop [OF al]] by simp
  hence digit: "py_isdigit (drop 4 ?u)"
    using len lb by (auto simp: py_isdigit_def)
  have l15: "length ?u = 15"
    using len lb lc ld by simp
  show ?thesis
    unfolding format_awrs_def Let_def u
    using alpha digit l15 len lb lc ld by (simp add: slice_def)
qed




lemma canonical_urn_split:
  assumes "canonical_urn x"
  shows "x = take 4 x @ CHR '' '' # slice 5 9 x @ CHR '' '' # slice 10 14 x @ CHR '' '' # drop 15 x"
proof -
  from assms have len: "length x = 18"
    and s4: "x ! 4 = CHR '' ''" and s9: "x ! 9 = CHR '' ''" and s14: "x ! 14 = CHR '' ''"
    by (simp_all add: canonical_urn_def)
  have p1: "x = take 4 x @ x ! 4 # drop 5 x"
    using id_take_nth_drop [of 4 x] len by simp
  have p2: "drop 5 x = take 4 (drop 5 x) @ drop 5 x ! 4 # drop 5 (drop 5 x)"
    using id_take_nth_drop [of 4 "drop 5 x"] len by simp
  have p3: "drop 10 x = take 4 (drop 10 x) @ drop 10 x ! 4 # drop 5 (drop 10 x)"
    using id_take_nth_drop [of 4 "drop 10 x"] len by simp
  have q2: "drop 5 x = slice 5 9 x @ CHR '' '' # drop 10 x"
    using p2 len s9 by (simp add: slice_def)
  have q3: "drop 10 x = slice 10 14 x @ CHR '' '' # drop 15 x"
    using p3 len s14 by (simp add: slice_def)
  show ?thesis
    using p1 s4 q2 q3 by simp
qed

text \<open>
  C9. For every \<open>x\<close> in the canonical spaced form, whatever the case of its four letters,
  formatting the formatted string gives the formatted string again, and the formatted
  string is \<open>x\<close> itself with its letters uppercased.
\<close>

theorem format_awrs_canonical_idem:
  assumes "canonical_urn x"
  shows "format_awrs (format_awrs x) = format_awrs x \<and> format_awrs x = py_upper x"
proof -
  let ?a = "take 4 x" and ?b = "slice 5 9 x" and ?c = "slice 10 14 x" and ?d = "drop 15 x"
  from assms have len: "length x = 18"
    and a: "list_all is_alpha_c ?a" and b: "list_all is_digit_c ?b"
    and c: "list_all is_digit_c ?c" and d: "list_all is_digit_c ?d"
    by (simp_all add: canonical_urn_def)
  have la: "length ?a = 4" and lb: "length ?b = 4" and lc: "length ?c = 4" and ld: "length ?d = 3"
    using len by (simp_all add: slice_def)
  have x: "x = ?a @ CHR '' '' # ?b @ CHR '' '' # ?c @ CHR '' '' # ?d"
    by (rule canonical_urn_split [OF assms])
  have f1: "format_awrs (?a @ CHR '' '' # ?b @ CHR '' '' # ?c @ CHR '' '' # ?d)
            = py_upper ?a @ CHR '' '' # ?b @ CHR '' '' # ?c @ CHR '' '' # ?d"
    by (rule format_awrs_groups [OF la lb lc ld a b c d])
  have la': "length (py_upper ?a) = 4" using la by (simp add: py_upper_alpha [OF a])
  have a': "list_all is_alpha_c (py_upper ?a)" by (rule list_all_alpha_upper [OF a])
  have idem: "py_upper (py_upper ?a) = py_upper ?a" by (rule py_upper_alpha_idem [OF a])
  have f2: "format_awrs (py_upper ?a @ CHR '' '' # ?b @ CHR '' '' # ?c @ CHR '' '' # ?d)
            = py_upper (py_upper ?a) @ CHR '' '' # ?b @ CHR '' '' # ?c @ CHR '' '' # ?d"
    by (rule format_awrs_groups [OF la' lb lc ld a' b c d])
  have up: "py_upper (?a @ CHR '' '' # ?b @ CHR '' '' # ?c @ CHR '' '' # ?d)
            = py_upper ?a @ CHR '' '' # ?b @ CHR '' '' # ?c @ CHR '' '' # ?d"
    using b c d by (simp add: py_upper_append py_upper_Cons py_upper_digits upper_blank)
  have r1: "format_awrs x = py_upper x"
    using f1 up x by metis
  have r2: "format_awrs (format_awrs x) = format_awrs x"
    using f1 f2 x idem by metis
  show ?thesis using r1 r2 by simp
qed

theorem format_awrs_canonical_idem_witness:
  "canonical_urn ''xaaw 0000 1234 567''
   \<and> format_awrs (format_awrs ''xaaw 0000 1234 567'') = format_awrs ''xaaw 0000 1234 567''
   \<and> format_awrs ''xaaw 0000 1234 567'' = py_upper ''xaaw 0000 1234 567''"
proof -
  have c: "canonical_urn ''xaaw 0000 1234 567''" by code_simp
  show ?thesis using c format_awrs_canonical_idem [OF c] by blast
qed

section \<open>The status table\<close>

text \<open>
  C2. \<open>normalise_status\<close> is the fixed table: it trims and lowercases its input and looks
  the result up; approved and not applicable give Approved, the three spellings of not
  approved give Not Approved, no match and no results found give No Match, deregistered,
  removed, revoked and application withdrawn give Deregistered, the empty string gives
  Unknown, and anything else comes back trimmed and otherwise as it was. The examples of
  section 8 of the specification hold, and so do one of each row of the table with
  capitals and white space around it, the no-break space included.
\<close>

theorem normalise_status_table:
  "normalise_status raw = normalise_spec raw
   \<and> normalise_status ''Approved'' = ''Approved''
   \<and> normalise_status ''APPROVED'' = ''Approved''
   \<and> normalise_status '' approved '' = ''Approved''
   \<and> normalise_status ''not applicable'' = ''Approved''
   \<and> normalise_status [] = ''Unknown''
   \<and> normalise_status ''something else'' = ''something else''
   \<and> normalise_status ''  Something Else  '' = ''Something Else''
   \<and> normalise_status (CHR 0xA0 # ''No-Longer Approved'' @ [CHR 0x85]) = ''Not Approved''
   \<and> normalise_status [CHR 0x09, CHR 0xA0, CHR 0x0A] = ''Unknown''
   \<and> normalise_status ''No Results Found '' = ''No Match''
   \<and> normalise_status '' REVOKED'' = ''Deregistered''"
proof -
  have t: "normalise_status raw = normalise_spec raw"
    unfolding normalise_status_def normalise_spec_def status_table_def Let_def
    by simp
  have e1: "normalise_status ''Approved'' = ''Approved''" by code_simp
  have e2: "normalise_status ''APPROVED'' = ''Approved''" by code_simp
  have e3: "normalise_status '' approved '' = ''Approved''" by code_simp
  have e4: "normalise_status ''not applicable'' = ''Approved''" by code_simp
  have e5: "normalise_status [] = ''Unknown''" by code_simp
  have e6: "normalise_status ''something else'' = ''something else''" by code_simp
  have e7: "normalise_status ''  Something Else  '' = ''Something Else''" by code_simp
  have e8: "normalise_status (CHR 0xA0 # ''No-Longer Approved'' @ [CHR 0x85]) = ''Not Approved''"
    by code_simp
  have e9: "normalise_status [CHR 0x09, CHR 0xA0, CHR 0x0A] = ''Unknown''" by code_simp
  have e10: "normalise_status ''No Results Found '' = ''No Match''" by code_simp
  have e11: "normalise_status '' REVOKED'' = ''Deregistered''" by code_simp
  show ?thesis
    unfolding e1 e2 e3 e4 e5 e6 e7 e8 e9 e10 e11 using t by simp
qed

section \<open>The label extractor\<close>

lemma first_some_None: "first_some f xs = None \<longleftrightarrow> (\<forall>x \<in> set xs. f x = None)"
  by (induction xs) (auto split: option.splits)

text \<open>
  C3, as the claim states it, fails. On a page whose definition list has the term
  \<open>Status\<close> with an empty definition, and the line \<open>Status: Approved\<close> further down,
  \<open>find_after_label\<close> returns the empty definition, where the first strategy with a result
  that is not empty gives \<open>Status: Approved\<close>.
\<close>

theorem find_after_label_empty_definition:
  "find_after_label ''Status'' page_empty_definition = []
   \<and> extract_spec ''Status'' page_empty_definition = ''Status: Approved''"
proof -
  have a: "find_after_label ''Status'' page_empty_definition = []" by code_simp
  have b: "extract_spec ''Status'' page_empty_definition = ''Status: Approved''" by code_simp
  show ?thesis using a b by simp
qed

text \<open>
  C3, amended. For every label and document, \<open>find_after_label\<close> tries the three
  strategies in order and returns the value of the first one that matches, whether or not
  that value is empty; it returns the empty string when none of the three matches. On
  a definition list it returns the definition with its white space collapsed, whatever
  the case of the term and the white space around it; on a line \<open>label: value\<close> and on a
  label with the value on the next line it returns the value trimmed; on a page without
  the label it returns the empty string.
\<close>

theorem find_after_label_first_match:
  "find_after_label label doc = (case first_match label doc of Some v \<Rightarrow> v | None \<Rightarrow> [])
   \<and> find_after_label ''Status''
        [Tag ''dl'' [] [Tag ''dt'' [] [Text ''Status''], Tag ''dd'' [] [Text ''Approved'']]]
       = ''Approved''
   \<and> find_after_label ''Status''
        [Tag ''dl'' []
           [Tag ''dt'' [] [Text ('' STATUS'' @ [CHR 0xA0])],
            Tag ''dd'' [] [Text (CHR 0xA0 # '' No  longer'' @ [CHR 0x0A] @ '' approved '')]]]
       = ''No longer approved''
   \<and> find_after_label ''Status'' [Tag ''p'' [] [Text ''Status: Approved'']] = ''Approved''
   \<and> find_after_label ''status''
        [Tag ''p'' [] [Text (''The STATUS :'' @ [CHR 0xA0] @ '' Approved '' @ [CHR 0xA0, CHR 0x0A]
                             @ ''more'')]]
       = ''Approved''
   \<and> find_after_label ''Status'' [Tag ''p'' [] [Text (''Status'' @ [CHR 0x0A] @ ''Approved'')]]
       = ''Approved''
   \<and> find_after_label ''Status'' [Tag ''p'' [] [Text ''Nothing here'']] = []"
proof -
  have t: "find_after_label label doc
           = (case first_match label doc of Some v \<Rightarrow> v | None \<Rightarrow> [])"
    by (simp add: find_after_label_def first_match_def Let_def split: option.splits)
  have e1: "find_after_label ''Status''
              [Tag ''dl'' [] [Tag ''dt'' [] [Text ''Status''], Tag ''dd'' [] [Text ''Approved'']]]
            = ''Approved''"
    by code_simp
  have e2: "find_after_label ''Status''
              [Tag ''dl'' []
                 [Tag ''dt'' [] [Text ('' STATUS'' @ [CHR 0xA0])],
                  Tag ''dd'' [] [Text (CHR 0xA0 # '' No  longer'' @ [CHR 0x0A] @ '' approved '')]]]
            = ''No longer approved''"
    by code_simp
  have e3: "find_after_label ''Status'' [Tag ''p'' [] [Text ''Status: Approved'']] = ''Approved''"
    by code_simp
  have e4: "find_after_label ''status''
              [Tag ''p'' [] [Text (''The STATUS :'' @ [CHR 0xA0] @ '' Approved ''
                                   @ [CHR 0xA0, CHR 0x0A] @ ''more'')]]
            = ''Approved''"
    by code_simp
  have e5: "find_after_label ''Status''
              [Tag ''p'' [] [Text (''Status'' @ [CHR 0x0A] @ ''Approved'')]]
            = ''Approved''"
    by code_simp
  have e6: "find_after_label ''Status'' [Tag ''p'' [] [Text ''Nothing here'']] = []"
    by code_simp
  show ?thesis
    unfolding e1 e2 e3 e4 e5 e6 using t by simp
qed

lemma first_match_None:
  "first_match label doc = None \<longleftrightarrow>
     dl_match label (find_all_sib [''dt''] doc) = None
     \<and> inline_match label (soup_text doc) = None
     \<and> nextline_match label (soup_text doc) = None"
  by (auto simp: first_match_def split: option.splits)

text \<open>
  The third pattern matches only where the second one does: its line break and the white
  space around it are white space that the second pattern's \<open>\s*\<close> takes. So the third
  strategy never decides the result.
\<close>

lemma greedy_star_self: "r \<in> set (greedy_star P r)"
  by (cases r) auto

lemma greedy_star_drop:
  "k \<le> length (takeWhile P r) \<Longrightarrow> drop k r \<in> set (greedy_star P r)"
proof (induction r arbitrary: k)
  case Nil
  then show ?case by simp
next
  case (Cons c r)
  show ?case
  proof (cases k)
    case 0
    then show ?thesis using greedy_star_self [of "c # r" P] by simp
  next
    case (Suc j)
    with Cons.prems have pc: "P c" and j: "j \<le> length (takeWhile P r)"
      by (auto split: if_splits)
    from Cons.IH [OF j] pc Suc show ?thesis by simp
  qed
qed

lemma greedy_star_set:
  "x \<in> set (greedy_star P r) \<Longrightarrow> \<exists>k \<le> length (takeWhile P r). x = drop k r"
proof (induction r)
  case Nil
  then show ?case by simp
next
  case (Cons c r)
  show ?case
  proof (cases "P c")
    case True
    with Cons.prems have "x \<in> set (greedy_star P r) \<or> x = c # r" by auto
    then show ?thesis
    proof
      assume "x \<in> set (greedy_star P r)"
      from Cons.IH [OF this] obtain k where "k \<le> length (takeWhile P r)" "x = drop k r" by blast
      then have "Suc k \<le> length (takeWhile P (c # r)) \<and> x = drop (Suc k) (c # r)"
        using True by simp
      then show ?thesis by blast
    next
      assume "x = c # r"
      then have "0 \<le> length (takeWhile P (c # r)) \<and> x = drop 0 (c # r)" by simp
      then show ?thesis by blast
    qed
  next
    case False
    with Cons.prems have "x = c # r" by auto
    then have "0 \<le> length (takeWhile P (c # r)) \<and> x = drop 0 (c # r)" by simp
    then show ?thesis by blast
  qed
qed

lemma takeWhile_run_add:
  "k \<le> length (takeWhile P r) \<Longrightarrow> j \<le> length (takeWhile P (drop k r))
   \<Longrightarrow> k + j \<le> length (takeWhile P r)"
proof (induction r arbitrary: k)
  case Nil
  then show ?case by simp
next
  case (Cons c r)
  show ?case
  proof (cases k)
    case 0
    with Cons.prems show ?thesis by simp
  next
    case (Suc i)
    with Cons.prems have pc: "P c" and i: "i \<le> length (takeWhile P r)"
      and j: "j \<le> length (takeWhile P (drop i r))"
      by (auto split: if_splits)
    from Cons.IH [OF i j] pc Suc show ?thesis by simp
  qed
qed

lemma newline_is_space: "is_space_c CHR 0x0A"
  by code_simp

lemma nextline_tail_inline_tail:
  assumes "nextline_tail r = Some g"
  shows "inline_tail r \<noteq> None"
proof -
  from assms have "nextline_tail r \<noteq> None" by simp
  then obtain r1 where r1: "r1 \<in> set (greedy_star is_space_c r)"
    and n1: "first_some (\<lambda>r2. first_some capture_line (greedy_star is_space_c r2))
               (literal_char CHR 0x0A r1) \<noteq> None"
    unfolding nextline_tail_def first_some_None by blast
  from n1 obtain r2 where r2: "r2 \<in> set (literal_char CHR 0x0A r1)"
    and n2: "first_some capture_line (greedy_star is_space_c r2) \<noteq> None"
    unfolding first_some_None by blast
  from n2 obtain r3 where r3: "r3 \<in> set (greedy_star is_space_c r2)"
    and cap: "capture_line r3 \<noteq> None"
    unfolding first_some_None by blast
  from r2 have r1_eq: "r1 = CHR 0x0A # r2"
    by (auto simp: literal_char_def split: list.splits if_splits)
  from greedy_star_set [OF r1] obtain k1 where
    k1: "k1 \<le> length (takeWhile is_space_c r)" and d1: "r1 = drop k1 r" by blast
  from greedy_star_set [OF r3] obtain k2 where
    k2: "k2 \<le> length (takeWhile is_space_c r2)" and d3: "r3 = drop k2 r2" by blast
  have "Suc k2 \<le> length (takeWhile is_space_c (drop k1 r))"
    using k2 d1 r1_eq newline_is_space by (metis length_Cons Suc_le_mono takeWhile.simps(2))
  from takeWhile_run_add [OF k1 this]
  have le: "k1 + Suc k2 \<le> length (takeWhile is_space_c r)" .
  have "drop (k1 + Suc k2) r = r3"
    using d1 d3 r1_eq by (metis add.commute drop_Suc_Cons drop_drop)
  with greedy_star_drop [OF le] have m1: "r3 \<in> set (greedy_star is_space_c r)" by simp
  have m2: "r3 \<in> set (optional_char CHR '':'' r3)"
    by (auto simp: optional_char_def split: list.splits)
  have m3: "r3 \<in> set (greedy_star is_space_c r3)" by (rule greedy_star_self)
  have "first_some capture_line (greedy_star is_space_c r3) \<noteq> None"
    using m3 cap by (auto simp: first_some_None)
  then have "first_some (\<lambda>r2. first_some capture_line (greedy_star is_space_c r2))
               (optional_char CHR '':'' r3) \<noteq> None"
    using m2 by (auto simp: first_some_None)
  then show ?thesis
    using m1 by (auto simp: inline_tail_def first_some_None)
qed

lemma inline_tail_None:
  "inline_tail r = None \<Longrightarrow> nextline_tail r = None"
  using nextline_tail_inline_tail [of r] by (cases "nextline_tail r") auto

lemma match_here_None:
  "match_here label inline_tail s = None \<Longrightarrow> match_here label nextline_tail s = None"
  by (auto simp: match_here_def inline_tail_None split: option.splits)

lemma re_search_nextline_inline:
  "re_search label inline_tail s = None \<Longrightarrow> re_search label nextline_tail s = None"
  by (induction s) (auto simp: match_here_None split: option.splits)

lemma nextline_match_never_first:
  "inline_match label text = None \<Longrightarrow> nextline_match label text = None"
  by (simp add: inline_match_def nextline_match_def re_search_nextline_inline)

lemma find_after_label_two_strategies:
  "find_after_label label doc =
     (case dl_match label (find_all_sib [''dt''] doc) of
        Some v \<Rightarrow> v
      | None \<Rightarrow> (case inline_match label (soup_text doc) of Some v \<Rightarrow> v | None \<Rightarrow> []))"
  using nextline_match_never_first [of label "soup_text doc"]
  by (auto simp: find_after_label_def Let_def split: option.splits)

section \<open>Results of the lookup and of the handler\<close>

lemma error_result_fields:
  "map_of (error_result e msg a s) ''success'' = Some (JBool False)"
  "map_of (error_result e msg a s) ''status'' = Some (JStr ''Error'')"
  "map_of (error_result e msg a s) ''error'' = Some (JStr msg)"
  "map_of (error_result e msg a s) ''awrs_number'' = Some (JStr a)"
  "map_of (error_result e msg a s) ''supplier_name'' = Some s"
  "blank_error (error_result e msg a s)"
  by (simp_all add: error_result_def blank_error_def)

lemma webhook_error_fields:
  "map_of (webhook_error e msg) ''success'' = Some (JBool False)"
  "map_of (webhook_error e msg) ''status'' = Some (JStr ''Error'')"
  "map_of (webhook_error e msg) ''error'' = Some (JStr msg)"
  "map_of (webhook_error e msg) ''awrs_number'' = None"
  "map_of (webhook_error e msg) ''supplier_name'' = None"
  "blank_error (webhook_error e msg)"
  by (simp_all add: webhook_error_def blank_error_def)

lemma parse_results_success:
  "map_of (parse_results e doc fu a s) ''success'' = Some (JBool True)"
  by (simp add: parse_results_def Let_def)

lemma submit_search_shape:
  "(\<exists>msg. fst (submit_search e tr form fd fu a s) = error_result e msg a s)
   \<or> (\<exists>doc. fst (submit_search e tr form fd fu a s) = parse_results e doc fu a s)"
  by (auto simp: submit_search_def exception_result_def Let_def split: sum.splits)

lemma fill_form_shape:
  "(\<exists>msg. fst (fill_form e tr doc a s) = error_result e msg a s)
   \<or> (\<exists>page fu. fst (fill_form e tr doc a s) = parse_results e page fu a s)"
proof (cases "find_first ''form'' doc")
  case None
  then show ?thesis by (auto simp: fill_form_def)
next
  case (Some form)
  show ?thesis
  proof (cases "find_text_input e doc")
    case None
    with Some show ?thesis by (auto simp: fill_form_def)
  next
    case (Some text_input)
    with \<open>find_first ''form'' doc = Some form\<close> show ?thesis
      using submit_search_shape
        [of e tr form "AList.update (tag_get text_input ''name'') (format_awrs a) (hidden_fields doc)"
            "format_awrs a" a s]
      by (auto simp: fill_form_def Let_def)
  qed
qed

lemma follow_check_urn_shape:
  "(\<exists>msg. fst (follow_check_urn e tr doc a s) = error_result e msg a s)
   \<or> (\<exists>page fu. fst (follow_check_urn e tr doc a s) = parse_results e page fu a s)"
  using fill_form_shape [of e tr doc a s] fill_form_shape [of e _ _ a s]
  by (auto simp: follow_check_urn_def exception_result_def Let_def
      split: option.splits sum.splits)

lemma lookup_shape:
  "(\<exists>msg. fst (lookup_single_awrs e a s) = error_result e msg a s)
   \<or> (\<exists>page fu. fst (lookup_single_awrs e a s) = parse_results e page fu a s)"
  using follow_check_urn_shape [of e "[Get HMRC_URL]" _ a s]
  by (auto simp: lookup_single_awrs_def exception_result_def Let_def split: sum.splits)

lemma lookup_failure_blank:
  assumes "map_of (fst (lookup_single_awrs e a s)) ''success'' = Some (JBool False)"
  shows "blank_error (fst (lookup_single_awrs e a s))"
  using lookup_shape [of e a s] assms
  by (auto simp: error_result_fields parse_results_success)

lemma webhook_shape:
  "(\<exists>msg. webhook_handler e rq = (webhook_error e msg, []))
   \<or> (\<exists>a s. webhook_handler e rq = lookup_single_awrs e a s)"
  by (auto simp: webhook_handler_def Let_def split: sum.splits)

text \<open>
  C1. Every result of \<open>lookup_single_awrs\<close> and every result of \<open>webhook_handler\<close> whose
  \<open>success\<close> is false has the status \<open>Error\<close> and the empty string in \<open>business_name\<close>,
  \<open>address\<close>, \<open>deregistration_date\<close>, \<open>effective_date\<close> and \<open>urn\<close>.
\<close>

theorem failed_results_are_blank:
  "(map_of (fst (lookup_single_awrs e a s)) ''success'' = Some (JBool False)
      \<longrightarrow> blank_error (fst (lookup_single_awrs e a s)))
   \<and> (map_of (fst (webhook_handler e rq)) ''success'' = Some (JBool False)
      \<longrightarrow> blank_error (fst (webhook_handler e rq)))"
  using webhook_shape [of e rq] lookup_failure_blank
  by (auto simp: webhook_error_fields)

text \<open>
  C7. The dictionary that the handler itself returns on a failure has neither
  \<open>awrs_number\<close> nor \<open>supplier_name\<close>, here for a body whose number is blank and whose
  supplier is Acme; the dictionaries that \<open>lookup_single_awrs\<close> returns on a failure have
  both.
\<close>

theorem webhook_error_omits_echo:
  "map_of (fst (webhook_handler e
       (Inr (JObj [(''awrs_number'', JStr ''   ''), (''supplier_name'', JStr ''Acme'')]))))
     ''supplier_name'' = None
   \<and> map_of (fst (webhook_handler e
       (Inr (JObj [(''awrs_number'', JStr ''   ''), (''supplier_name'', JStr ''Acme'')]))))
     ''awrs_number'' = None
   \<and> map_of (error_result e msg ''XAAW00001234567'' (JStr ''Acme'')) ''supplier_name''
       = Some (JStr ''Acme'')"
proof -
  have "py_strip ''   '' = []" by code_simp
  then show ?thesis
    by (simp add: webhook_handler_def webhook_error_fields error_result_fields)
qed

lemma lookup_makes_a_request: "snd (lookup_single_awrs e a s) \<noteq> []"
  by (auto simp: lookup_single_awrs_def follow_check_urn_def fill_form_def submit_search_def
      Let_def split: sum.splits option.splits)

text \<open>
  C8. When the body has no \<open>awrs_number\<close>, or one that trims to the empty string, the
  handler returns at once the failed result with the error \<open>No AWRS number provided\<close>,
  and no request goes out: the trace is empty, where every run of \<open>lookup_single_awrs\<close>
  makes at least one request.
\<close>

theorem webhook_without_number:
  assumes "map_of kvs ''awrs_number'' = None
           \<or> (\<exists>raw. map_of kvs ''awrs_number'' = Some (JStr raw) \<and> py_strip raw = [])"
  shows "webhook_handler e (Inr (JObj kvs)) = (webhook_error e ''No AWRS number provided'', [])
         \<and> map_of (fst (webhook_handler e (Inr (JObj kvs)))) ''success'' = Some (JBool False)
         \<and> map_of (fst (webhook_handler e (Inr (JObj kvs)))) ''error''
             = Some (JStr ''No AWRS number provided'')
         \<and> snd (webhook_handler e (Inr (JObj kvs))) = []
         \<and> webhook_handler e (Inr (JObj kvs)) \<noteq> lookup_single_awrs e a s"
proof -
  have strip_empty: "py_strip [] = []"
    by (simp add: py_strip_def py_lstrip_def py_rstrip_def)
  have w: "webhook_handler e (Inr (JObj kvs)) = (webhook_error e ''No AWRS number provided'', [])"
    using assms by (cases "kvs = []") (auto simp: webhook_handler_def strip_empty)
  have "snd (webhook_handler e (Inr (JObj kvs))) \<noteq> snd (lookup_single_awrs e a s)"
    using w lookup_makes_a_request [of e a s] by simp
  then have "webhook_handler e (Inr (JObj kvs)) \<noteq> lookup_single_awrs e a s" by auto
  with w show ?thesis by (simp add: webhook_error_fields)
qed

theorem webhook_without_number_witness:
  "webhook_handler (sample_env 200 200 results_bare)
     (Inr (JObj [(''awrs_number'', JStr [CHR 0xA0, CHR '' '', CHR 0x85])]))
     = (webhook_error (sample_env 200 200 results_bare) ''No AWRS number provided'', [])
   \<and> snd (webhook_handler (sample_env 200 200 results_bare)
            (Inr (JObj [(''awrs_number'', JStr [CHR 0xA0, CHR '' '', CHR 0x85])]))) = []"
proof -
  have s: "py_strip [CHR 0xA0, CHR '' '', CHR 0x85] = []" by code_simp
  have h: "map_of [(''awrs_number'', JStr [CHR 0xA0, CHR '' '', CHR 0x85])] ''awrs_number'' = None
           \<or> (\<exists>raw. map_of [(''awrs_number'', JStr [CHR 0xA0, CHR '' '', CHR 0x85])]
                       ''awrs_number'' = Some (JStr raw)
                     \<and> py_strip raw = [])"
    using s by simp
  show ?thesis
    using webhook_without_number [OF h, of "sample_env 200 200 results_bare" "[]" JNull] by blast
qed

section \<open>How far a lookup got\<close>

lemma submit_search_outcome:
  assumes "submit_search e tr form fd (format_awrs a) a s = (r, tr')"
  shows "\<exists>u. tr' = tr @ [Post u fd] \<and> search_outcome e a s tr (Post u fd) r"
  using assms
  by (auto simp: submit_search_def search_outcome_def Let_def split: sum.splits if_splits)

lemma fill_form_outcome:
  assumes "fill_form e tr doc a s = (r, tr')"
  shows "(tr' = tr \<and> (\<exists>msg. r = error_result e msg a s))
         \<or> (\<exists>u fd. tr' = tr @ [Post u fd] \<and> search_outcome e a s tr (Post u fd) r)"
proof (cases "find_first ''form'' doc")
  case None
  with assms show ?thesis by (auto simp: fill_form_def)
next
  case form: (Some form)
  show ?thesis
  proof (cases "find_text_input e doc")
    case None
    with form assms show ?thesis by (auto simp: fill_form_def)
  next
    case (Some text_input)
    with form assms have
      "submit_search e tr form
         (AList.update (tag_get text_input ''name'') (format_awrs a) (hidden_fields doc))
         (format_awrs a) a s = (r, tr')"
      by (simp add: fill_form_def Let_def)
    from submit_search_outcome [OF this] show ?thesis by blast
  qed
qed

lemma follow_check_urn_outcome:
  assumes "follow_check_urn e tr doc a s = (r, tr')" and "\<exists>u. last tr = Get u" and "tr \<noteq> []"
  shows "((\<exists>msg. r = error_result e msg a s) \<and> tr' \<noteq> [] \<and> (\<exists>u. last tr' = Get u))
         \<or> (\<exists>tr0 u fd. tr' = tr0 @ [Post u fd] \<and> search_outcome e a s tr0 (Post u fd) r)"
proof -
  consider (direct) "fill_form e tr doc a s = (r, tr')"
    | (fault) url exn where "server e tr (Get (origin @ url)) = Inl exn"
        "r = exception_result e exn a s" "tr' = tr @ [Get (origin @ url)]"
    | (second) url response where "server e tr (Get (origin @ url)) = Inr response"
        "fill_form e (tr @ [Get (origin @ url)]) (content response) a s = (r, tr')"
    using assms(1)
    by (auto simp: follow_check_urn_def Let_def split: option.splits sum.splits if_splits)
  then show ?thesis
  proof cases
    case direct
    from fill_form_outcome [OF this] assms(2,3) show ?thesis by blast
  next
    case fault
    then show ?thesis by (auto simp: exception_result_def)
  next
    case second
    from fill_form_outcome [OF second(2)] show ?thesis by auto
  qed
qed

lemma lookup_outcome:
  assumes "lookup_single_awrs e a s = (r, tr)"
  shows "((\<exists>msg. r = error_result e msg a s) \<and> tr \<noteq> [] \<and> (\<exists>u. last tr = Get u))
         \<or> (\<exists>tr0 u fd. tr = tr0 @ [Post u fd] \<and> search_outcome e a s tr0 (Post u fd) r)"
proof (cases "server e [] (Get HMRC_URL)")
  case (Inl exn)
  with assms show ?thesis
    by (auto simp: lookup_single_awrs_def exception_result_def Let_def)
next
  case (Inr response)
  show ?thesis
  proof (cases "status_code response = 200")
    case False
    with Inr assms show ?thesis
      by (auto simp: lookup_single_awrs_def Let_def)
  next
    case True
    with Inr assms have
      "follow_check_urn e [Get HMRC_URL] (content response) a s = (r, tr)"
      by (simp add: lookup_single_awrs_def Let_def)
    from follow_check_urn_outcome [OF this] show ?thesis by simp
  qed
qed

lemma lookup_success_page:
  assumes L: "lookup_single_awrs e a s = (r, tr)"
    and ok: "map_of r ''success'' = Some (JBool True)"
  shows "\<exists>sr. server e (butlast tr) (last tr) = Inr sr \<and> status_code sr = 200
              \<and> r = parse_results e (content sr) (format_awrs a) a s"
proof -
  have not_error: "\<And>msg. r \<noteq> error_result e msg a s"
    using ok by (auto simp: error_result_fields)
  from lookup_outcome [OF L] not_error obtain tr0 u fd where
    tr: "tr = tr0 @ [Post u fd]" and c: "search_outcome e a s tr0 (Post u fd) r"
    by blast
  show ?thesis
  proof (cases "server e tr0 (Post u fd)")
    case (Inl exn)
    with c not_error show ?thesis by (simp add: search_outcome_def exception_result_def)
  next
    case (Inr sr)
    with c not_error have "status_code sr = 200"
      and "r = parse_results e (content sr) (format_awrs a) a s"
      by (auto simp: search_outcome_def split: if_splits)
    with Inr tr show ?thesis by simp
  qed
qed

lemma lookup_submitted:
  assumes L: "lookup_single_awrs e a s = (r, tr)"
    and post: "last tr = Post u fd"
    and sr: "server e (butlast tr) (last tr) = Inr sr"
  shows "r = (if status_code sr \<noteq> 200
              then error_result e (''Search failed with status: '' @ str_int (status_code sr)) a s
              else parse_results e (content sr) (format_awrs a) a s)"
proof -
  from lookup_outcome [OF L] post obtain tr0 u' fd' where
    tr: "tr = tr0 @ [Post u' fd']" and c: "search_outcome e a s tr0 (Post u' fd') r"
    by auto
  from tr sr have "server e tr0 (Post u' fd') = Inr sr" by simp
  with c show ?thesis by (simp add: search_outcome_def)
qed

section \<open>The sample registries\<close>

lemma sample_landing_response:
  "server (sample_env landing search page) tr (Get url)
     = Inr \<lparr>status_code = landing, content = landing_page\<rparr>"
  by (simp add: sample_env_def)

lemma sample_search_response:
  "server (sample_env landing search page) tr (Post url fd)
     = Inr \<lparr>status_code = search, content = page\<rparr>"
  by (simp add: sample_env_def)

lemma sample_landing_failure:
  "landing \<noteq> 200 \<Longrightarrow>
   lookup_single_awrs (sample_env landing search page) a s =
     (error_result (sample_env landing search page)
        (''Failed to access HMRC website: '' @ str_int landing) a s,
      [Get HMRC_URL])"
  by (simp add: lookup_single_awrs_def sample_landing_response Let_def)

lemma sample_text_input:
  "find_text_input (sample_env landing search page) landing_page
     = Some (Tag ''input'' [(''type'', ''text''), (''name'', ''value'')] [])"
proof -
  have "first_some (\<lambda>selector. case sample_select selector landing_page of
                                  [] \<Rightarrow> None | t # ts \<Rightarrow> Some t)
          [''input[name=\"value\"]'', ''input[name=\"query\"]'', ''input[type=\"text\"]'']
        = Some (Tag ''input'' [(''type'', ''text''), (''name'', ''value'')] [])"
    by code_simp
  then show ?thesis
    by (simp add: find_text_input_def sample_env_def)
qed

lemma sample_submission:
  "lookup_single_awrs (sample_env 200 search page) ''xaaw00001234567'' s =
     ((if search \<noteq> 200
       then error_result (sample_env 200 search page)
              (''Search failed with status: '' @ str_int search) ''xaaw00001234567'' s
       else parse_results (sample_env 200 search page) page ''XAAW 0000 1234 567''
              ''xaaw00001234567'' s),
      [Get HMRC_URL,
       Post ''https://www.tax.service.gov.uk/check-the-awrs-register/search''
         [(Some ''csrfToken'', ''t0k''), (Some ''value'', ''XAAW 0000 1234 567'')]])"
proof -
  have a: "find_check_urn_url landing_page = None" by code_simp
  have b: "find_first ''form'' landing_page
             = Some (Tag ''form'' [(''action'', ''/check-the-awrs-register/search'')]
                 [Tag ''input''
                    [(''type'', ''hidden''), (''name'', ''csrfToken''), (''value'', ''t0k'')] [],
                  Tag ''input'' [(''type'', ''text''), (''name'', ''value'')] []])"
    by code_simp
  have c: "hidden_fields landing_page = [(Some ''csrfToken'', ''t0k'')]" by code_simp
  have f: "format_awrs ''xaaw00001234567'' = ''XAAW 0000 1234 567''" by code_simp
  have g: "\<not> startswith ''/check-the-awrs-register/search'' ''http''" by code_simp
  have h: "origin @ ''/check-the-awrs-register/search''
             = ''https://www.tax.service.gov.uk/check-the-awrs-register/search''"
    by code_simp
  show ?thesis
    by (simp add: lookup_single_awrs_def follow_check_urn_def fill_form_def submit_search_def
        sample_landing_response sample_search_response sample_text_input Let_def a b c f g h)
qed

lemma str_int_samples: "str_int 204 = ''204''" "str_int 201 = ''201''" "str_int 500 = ''500''"
  by code_simp+

text \<open>
  C1 at a registry whose landing page answers 500, and at an empty body.
\<close>

theorem failed_results_are_blank_witness:
  "map_of (fst (lookup_single_awrs (sample_env 500 200 results_bare) ''xaaw00001234567''
                  (JStr ''Acme''))) ''success'' = Some (JBool False)
   \<and> blank_error (fst (lookup_single_awrs (sample_env 500 200 results_bare) ''xaaw00001234567''
                         (JStr ''Acme'')))
   \<and> map_of (fst (webhook_handler (sample_env 500 200 results_bare) (Inr (JObj []))))
        ''success'' = Some (JBool False)
   \<and> blank_error (fst (webhook_handler (sample_env 500 200 results_bare) (Inr (JObj []))))"
proof -
  have strip_empty: "py_strip [] = []"
    by (simp add: py_strip_def py_lstrip_def py_rstrip_def)
  have h1: "map_of (fst (lookup_single_awrs (sample_env 500 200 results_bare) ''xaaw00001234567''
                  (JStr ''Acme''))) ''success'' = Some (JBool False)"
    by (simp add: sample_landing_failure error_result_fields)
  have h2: "map_of (fst (webhook_handler (sample_env 500 200 results_bare) (Inr (JObj []))))
        ''success'' = Some (JBool False)"
    by (simp add: webhook_handler_def strip_empty webhook_error_fields)
  show ?thesis
    using h1 h2
      failed_results_are_blank [of "sample_env 500 200 results_bare" "''xaaw00001234567''"
        "JStr ''Acme''" "Inr (JObj [])"]
    by blast
qed

text \<open>
  C4, as the claim states it, fails. The code 204 is a success code of HTTP, and a landing
  page that answers 204 ends the lookup with the failed result whose message has the code:
  the lookup does not go on.
\<close>

theorem landing_status_204_is_an_error:
  "is_2xx 204
   \<and> lookup_single_awrs (sample_env 204 200 results_bare) ''xaaw00001234567'' (JStr ''Acme'') =
       (error_result (sample_env 204 200 results_bare) ''Failed to access HMRC website: 204''
          ''xaaw00001234567'' (JStr ''Acme''),
        [Get HMRC_URL])
   \<and> map_of (fst (lookup_single_awrs (sample_env 204 200 results_bare) ''xaaw00001234567''
                    (JStr ''Acme''))) ''success'' = Some (JBool False)"
proof -
  have "(204 :: int) \<noteq> 200" by simp
  from sample_landing_failure [OF this, of 200 results_bare "''xaaw00001234567''" "JStr ''Acme''"]
  show ?thesis
    by (simp add: str_int_samples is_2xx_def error_result_fields)
qed

section \<open>The two status checks\<close>

lemma parse_results_error:
  "map_of (parse_results e doc fu a s) ''error'' = None"
  by (simp add: parse_results_def Let_def)

lemma submit_search_not_landing:
  "map_of (fst (submit_search e tr form fd fu a s)) ''error''
     \<noteq> Some (JStr (''Failed to access HMRC website: '' @ x))"
  by (auto simp: submit_search_def exception_result_def Let_def error_result_fields
      parse_results_error split: sum.splits)

lemma fill_form_not_landing:
  "map_of (fst (fill_form e tr doc a s)) ''error''
     \<noteq> Some (JStr (''Failed to access HMRC website: '' @ x))"
  using submit_search_not_landing
  by (auto simp: fill_form_def Let_def error_result_fields split: option.splits)

lemma follow_check_urn_not_landing:
  "map_of (fst (follow_check_urn e tr doc a s)) ''error''
     \<noteq> Some (JStr (''Failed to access HMRC website: '' @ x))"
  using fill_form_not_landing
  by (auto simp: follow_check_urn_def exception_result_def Let_def error_result_fields
      split: option.splits sum.splits)

text \<open>
  C4, amended. At the landing page and at the submission of the form the lookup compares
  the status code with 200. An answer to the first request with another code, a success
  code other than 200 included, ends the lookup after that one request with the failed
  result whose message is \<open>Failed to access HMRC website:\<close> and the code; with the code
  200 the lookup goes on with the rest of the pipeline, and its result never has that
  message. When the lookup has submitted the form and got an answer, another code than
  200 gives the failed result whose message is \<open>Search failed with status:\<close> and the
  code, and the code 200 gives the successful result read off the page of the answer.
\<close>

theorem status_checks_compare_with_200:
  "(server e [] (Get HMRC_URL) = Inr response \<longrightarrow>
      (status_code response \<noteq> 200 \<longrightarrow>
         lookup_single_awrs e a s =
           (error_result e
              (''Failed to access HMRC website: '' @ str_int (status_code response)) a s,
            [Get HMRC_URL]))
      \<and> (status_code response = 200 \<longrightarrow>
           lookup_single_awrs e a s
             = follow_check_urn e [Get HMRC_URL] (content response) a s
           \<and> map_of (fst (lookup_single_awrs e a s)) ''error''
               \<noteq> Some (JStr (''Failed to access HMRC website: '' @ x))))
   \<and> (lookup_single_awrs e a s = (r, tr) \<and> last tr = Post u fd
        \<and> server e (butlast tr) (last tr) = Inr sr \<longrightarrow>
      (status_code sr \<noteq> 200 \<longrightarrow>
         r = error_result e (''Search failed with status: '' @ str_int (status_code sr)) a s)
      \<and> (status_code sr = 200 \<longrightarrow>
           r = parse_results e (content sr) (format_awrs a) a s
           \<and> map_of r ''success'' = Some (JBool True)))"
proof -
  have landing: "server e [] (Get HMRC_URL) = Inr response \<longrightarrow>
      (status_code response \<noteq> 200 \<longrightarrow>
         lookup_single_awrs e a s =
           (error_result e
              (''Failed to access HMRC website: '' @ str_int (status_code response)) a s,
            [Get HMRC_URL]))
      \<and> (status_code response = 200 \<longrightarrow>
           lookup_single_awrs e a s
             = follow_check_urn e [Get HMRC_URL] (content response) a s
           \<and> map_of (fst (lookup_single_awrs e a s)) ''error''
               \<noteq> Some (JStr (''Failed to access HMRC website: '' @ x)))"
    using follow_check_urn_not_landing [of e "[Get HMRC_URL]" "content response" a s x]
    by (simp add: lookup_single_awrs_def Let_def)
  have submission: "lookup_single_awrs e a s = (r, tr) \<and> last tr = Post u fd
        \<and> server e (butlast tr) (last tr) = Inr sr \<longrightarrow>
      (status_code sr \<noteq> 200 \<longrightarrow>
         r = error_result e (''Search failed with status: '' @ str_int (status_code sr)) a s)
      \<and> (status_code sr = 200 \<longrightarrow>
           r = parse_results e (content sr) (format_awrs a) a s
           \<and> map_of r ''success'' = Some (JBool True))"
    using lookup_submitted [of e a s r tr u fd sr]
    by (auto simp: parse_results_success)
  from landing submission show ?thesis by blast
qed

theorem status_checks_compare_with_200_witness:
  "server (sample_env 200 201 results_bare) [] (Get HMRC_URL)
     = Inr \<lparr>status_code = 200, content = landing_page\<rparr>
   \<and> lookup_single_awrs (sample_env 200 201 results_bare) ''xaaw00001234567'' (JStr ''Acme'')
       = follow_check_urn (sample_env 200 201 results_bare) [Get HMRC_URL] landing_page
           ''xaaw00001234567'' (JStr ''Acme'')
   \<and> fst (lookup_single_awrs (sample_env 200 201 results_bare) ''xaaw00001234567''
             (JStr ''Acme''))
       = error_result (sample_env 200 201 results_bare) ''Search failed with status: 201''
           ''xaaw00001234567'' (JStr ''Acme'')"
proof -
  let ?E = "sample_env 200 201 results_bare"
  let ?L = "lookup_single_awrs ?E ''xaaw00001234567'' (JStr ''Acme'')"
  let ?post = "Post ''https://www.tax.service.gov.uk/check-the-awrs-register/search''
                 [(Some ''csrfToken'', ''t0k''), (Some ''value'', ''XAAW 0000 1234 567'')]"
  have h1: "server ?E [] (Get HMRC_URL) = Inr \<lparr>status_code = 200, content = landing_page\<rparr>"
    by (rule sample_landing_response)
  have tr: "snd ?L = [Get HMRC_URL, ?post]"
    by (simp add: sample_submission)
  have h2: "?L = (fst ?L, snd ?L)" by simp
  have h3: "last (snd ?L) = ?post" by (simp add: tr)
  have h4: "server ?E (butlast (snd ?L)) (last (snd ?L))
              = Inr \<lparr>status_code = 201, content = results_bare\<rparr>"
    by (simp add: tr sample_search_response)
  have c1: "status_code \<lparr>status_code = 200, content = landing_page\<rparr> = 200" by simp
  have c2: "status_code \<lparr>status_code = 201, content = results_bare\<rparr> \<noteq> 200" by simp
  note T = status_checks_compare_with_200
         [of ?E "\<lparr>status_code = 200, content = landing_page\<rparr>" "''xaaw00001234567''"
             "JStr ''Acme''" "[]" "fst ?L" "snd ?L"
             "''https://www.tax.service.gov.uk/check-the-awrs-register/search''"
             "[(Some ''csrfToken'', ''t0k''), (Some ''value'', ''XAAW 0000 1234 567'')]"
             "\<lparr>status_code = 201, content = results_bare\<rparr>"]
  from T h1 h2 h3 h4 c1 c2
  have "?L = follow_check_urn ?E [Get HMRC_URL]
               (content \<lparr>status_code = 200, content = landing_page\<rparr>)
               ''xaaw00001234567'' (JStr ''Acme'')"
    and "fst ?L = error_result ?E
                    (''Search failed with status: ''
                     @ str_int (status_code \<lparr>status_code = 201, content = results_bare\<rparr>))
                    ''xaaw00001234567'' (JStr ''Acme'')"
    by blast+
  with h1 show ?thesis by (simp add: str_int_samples)
qed

section \<open>The status and the deregistration date of a successful lookup\<close>

text \<open>The definitions that evaluating the extractor on a sample page unfolds.\<close>

lemmas eval_defs =
  py_lower_def py_upper_def lower_c_def upper_c_def is_upper_c_def is_lower_c_def
  is_space_c_def is_newline_c_def is_digit_c_def is_alpha_c_def is_alnum_c_def
  py_strip_def py_lstrip_def py_rstrip_def py_or_def
  char_of_eq_iff
  find_after_label_def extract_status_def find_all_sib_def is_tag_named_def
  find_next_sibling_def soup_text_def inline_match_def nextline_match_def match_here_def
  literal_ci_def inline_tail_def nextline_tail_def optional_char_def literal_char_def
  capture_line_def py_split_def split_step_def is_not_applicable_def Let_def

lemma not_applicable_nonempty:
  "py_lower (py_strip d) = ''not applicable'' \<Longrightarrow> is_not_applicable d"
  by (cases "d = []")
     (auto simp: is_not_applicable_def py_strip_def py_lstrip_def py_rstrip_def py_lower_def)

lemma parse_results_status:
  "map_of (parse_results e doc fu a s) ''status'' =
     Some (JStr (py_or
       (if is_not_applicable (find_after_label ''Date of deregistration'' doc)
           \<and> (normalised_status doc = [] \<or> normalised_status doc = ''Unknown'')
        then ''Approved'' else normalised_status doc)
       ''Unknown''))"
  by (auto simp: parse_results_def normalised_status_def Let_def)

lemma parse_results_deregistration_date:
  "map_of (parse_results e doc fu a s) ''deregistration_date'' =
     Some (JStr (if is_not_applicable (find_after_label ''Date of deregistration'' doc)
                 then [] else find_after_label ''Date of deregistration'' doc))"
  by (simp add: parse_results_def Let_def py_or_def)

text \<open>
  C5. In a successful lookup whose results page gives a deregistration date that is
  \<open>not applicable\<close> once trimmed and lowercased, the returned \<open>deregistration_date\<close> is
  the empty string; if moreover the status at that point, after normalisation, is empty
  or \<open>Unknown\<close>, the returned status is \<open>Approved\<close>; in particular this is so when the
  page has no status for any of the three labels. The results page is the answer to the
  last request of the lookup.
\<close>

theorem deregistration_not_applicable:
  assumes L: "lookup_single_awrs e a s = (r, tr)"
    and ok: "map_of r ''success'' = Some (JBool True)"
    and page: "server e (butlast tr) (last tr) = Inr sr"
    and na: "py_lower (py_strip (find_after_label ''Date of deregistration'' (content sr)))
               = ''not applicable''"
  shows "map_of r ''deregistration_date'' = Some (JStr [])
         \<and> (normalised_status (content sr) = [] \<or> normalised_status (content sr) = ''Unknown''
              \<longrightarrow> map_of r ''status'' = Some (JStr ''Approved''))
         \<and> (extract_status (content sr) = [] \<longrightarrow> map_of r ''status'' = Some (JStr ''Approved''))"
proof -
  from lookup_success_page [OF L ok] page
  have r: "r = parse_results e (content sr) (format_awrs a) a s" by auto
  have n: "is_not_applicable (find_after_label ''Date of deregistration'' (content sr))"
    by (rule not_applicable_nonempty [OF na])
  have e: "extract_status (content sr) = [] \<Longrightarrow> normalised_status (content sr) = []"
    by (simp add: normalised_status_def)
  show ?thesis
    unfolding r parse_results_status parse_results_deregistration_date
    using n e by (auto simp: py_or_def)
qed

theorem deregistration_not_applicable_witness:
  "map_of (fst (lookup_single_awrs (sample_env 200 200 results_not_applicable)
                  ''xaaw00001234567'' (JStr ''Acme''))) ''deregistration_date'' = Some (JStr [])
   \<and> map_of (fst (lookup_single_awrs (sample_env 200 200 results_not_applicable)
                    ''xaaw00001234567'' (JStr ''Acme''))) ''status'' = Some (JStr ''Approved'')"
proof -
  let ?E = "sample_env 200 200 results_not_applicable"
  let ?L = "lookup_single_awrs ?E ''xaaw00001234567'' (JStr ''Acme'')"
  let ?sr = "\<lparr>status_code = 200, content = results_not_applicable\<rparr>"
  have d: "find_after_label ''Date of deregistration'' results_not_applicable = ''Not Applicable''"
    by (simp add: eval_defs results_not_applicable_def)
  have low: "py_lower (py_strip ''Not Applicable'') = ''not applicable''"
    by (simp add: eval_defs)
  have st: "extract_status results_not_applicable = []"
    by (simp add: eval_defs results_not_applicable_def)
  have h1: "?L = (fst ?L, snd ?L)" by simp
  have h2: "map_of (fst ?L) ''success'' = Some (JBool True)"
    by (simp add: sample_submission parse_results_success)
  have h3: "server ?E (butlast (snd ?L)) (last (snd ?L)) = Inr ?sr"
    by (simp add: sample_submission sample_search_response)
  have h4: "py_lower (py_strip (find_after_label ''Date of deregistration'' (content ?sr)))
              = ''not applicable''"
    by (simp add: d low)
  have h5: "extract_status (content ?sr) = []" by (simp add: st)
  from deregistration_not_applicable [OF h1 h2 h3 h4] h5 show ?thesis by blast
qed

text \<open>
  C10. The status of a successful result is never the empty string; when the results
  page has no status for any of the three labels and its deregistration date is not the
  special case, the status is \<open>Unknown\<close>.
\<close>

theorem successful_status_not_empty:
  assumes L: "lookup_single_awrs e a s = (r, tr)"
    and ok: "map_of r ''success'' = Some (JBool True)"
  shows "\<exists>st. map_of r ''status'' = Some (JStr st) \<and> st \<noteq> []
           \<and> (\<forall>sr. server e (butlast tr) (last tr) = Inr sr
                     \<and> extract_status (content sr) = []
                     \<and> \<not> is_not_applicable
                           (find_after_label ''Date of deregistration'' (content sr))
                   \<longrightarrow> st = ''Unknown'')"
proof -
  from lookup_success_page [OF L ok] obtain sr0 where
    page: "server e (butlast tr) (last tr) = Inr sr0"
    and r: "r = parse_results e (content sr0) (format_awrs a) a s"
    by blast
  have e: "\<And>doc. extract_status doc = [] \<Longrightarrow> normalised_status doc = []"
    by (simp add: normalised_status_def)
  show ?thesis
    unfolding r parse_results_status
    using page e by (auto simp: py_or_def)
qed

theorem successful_status_not_empty_witness:
  "map_of (fst (lookup_single_awrs (sample_env 200 200 results_bare)
                  ''xaaw00001234567'' (JStr ''Acme''))) ''status'' = Some (JStr ''Unknown'')"
proof -
  let ?E = "sample_env 200 200 results_bare"
  let ?L = "lookup_single_awrs ?E ''xaaw00001234567'' (JStr ''Acme'')"
  let ?sr = "\<lparr>status_code = 200, content = results_bare\<rparr>"
  have d: "\<not> is_not_applicable (find_after_label ''Date of deregistration'' results_bare)"
    by (simp add: eval_defs results_bare_def)
  have st: "extract_status results_bare = []"
    by (simp add: eval_defs results_bare_def)
  have h1: "?L = (fst ?L, snd ?L)" by simp
  have h2: "map_of (fst ?L) ''success'' = Some (JBool True)"
    by (simp add: sample_submission parse_results_success)
  have h3: "server ?E (butlast (snd ?L)) (last (snd ?L)) = Inr ?sr"
    by (simp add: sample_submission sample_search_response)
  have h4: "extract_status (content ?sr) = []" by (simp add: st)
  have h5: "\<not> is_not_applicable (find_after_label ''Date of deregistration'' (content ?sr))"
    using d by simp
  from successful_status_not_empty [OF h1 h2] obtain st where
    s1: "map_of (fst ?L) ''status'' = Some (JStr st)"
    and s2: "\<forall>sr. server ?E (butlast (snd ?L)) (last (snd ?L)) = Inr sr
                     \<and> extract_status (content sr) = []
                     \<and> \<not> is_not_applicable
                           (find_after_label ''Date of deregistration'' (content sr))
                   \<longrightarrow> st = ''Unknown''"
    by blast
  from s2 h3 h4 h5 have "st = ''Unknown''" by blast
  with s1 show ?thesis by simp
qed

end
